theory Spec2Isabelle
  imports Main
begin

section \<open>The x86-64 instruction-set loader of \<^verbatim>\<open>opcodes/x86_64.py\<close>\<close>

text \<open>
  The module reads an XML description of the x86-64 instruction set and builds a list of
  \<^verbatim>\<open>Instruction\<close> objects. The function \<^verbatim>\<open>read_instruction_set\<close> is one
  nest of \<^verbatim>\<open>for\<close> loops over the element tree; every \<^verbatim>\<open>assert\<close>, every
  dictionary lookup, every \<^verbatim>\<open>int(...)\<close> and every list subscript in it may raise,
  and a raised exception ends the whole load. The embedding below keeps those exits as
  values of a sum type and threads the two pieces of state the loops share (the local
  variable \<^verbatim>\<open>rex\<close> and the standard output) explicitly. The input of the model is
  the root element that \<^verbatim>\<open>ET.parse(filename).getroot()\<close> returns; \<^verbatim>\<open>assert\<close>
  statements are executed, as they are unless Python runs with \<^verbatim>\<open>-O\<close>.
\<close>

subsection \<open>Exceptions\<close>

datatype py_error =
    AssertionError
  | KeyError
  | ValueError
  | IndexError
  | TypeError
  | UnboundLocalError

definition bind :: "py_error + 'a \<Rightarrow> ('a \<Rightarrow> py_error + 'b) \<Rightarrow> py_error + 'b" where
  "bind m f = (case m of Inl e \<Rightarrow> Inl e | Inr v \<Rightarrow> f v)"

definition py_assert :: "bool \<Rightarrow> py_error + unit" where
  "py_assert b = (if b then Inr () else Inl AssertionError)"

subsection \<open>The built-in \<^verbatim>\<open>int(s)\<close> and \<^verbatim>\<open>int(s, base)\<close> on strings\<close>

text \<open>
  Python strips white space on both sides, reads an optional sign, for base 16 (base 2) an
  optional \<^verbatim>\<open>0x\<close> (\<^verbatim>\<open>0b\<close>) prefix, then at least one digit of the base, where single
  underscores may separate digits. Anything else raises \<^verbatim>\<open>ValueError\<close>, and so does,
  in a base that is no power of two, a string of more than 4300 digits (the default of
  \<^verbatim>\<open>sys.set_int_max_str_digits\<close> in CPython 3.11). Characters are the code points
  below 256; the white space among them is tab, line feed, vertical tab, form feed,
  carriage return, space, next line (133) and no-break space (160).
\<close>

definition py_isspace :: "char \<Rightarrow> bool" where
  "py_isspace c = (of_char c \<in> {9, 10, 11, 12, 13, 32, 133, 160 :: nat})"

definition digit_value :: "char \<Rightarrow> nat option" where
  "digit_value c = (let n = of_char c :: nat in
     if 48 \<le> n \<and> n \<le> 57 then Some (n - 48)
     else if 97 \<le> n \<and> n \<le> 122 then Some (n - 87)
     else if 65 \<le> n \<and> n \<le> 90 then Some (n - 55)
     else None)"

fun scan_digits :: "nat \<Rightarrow> nat option \<Rightarrow> bool \<Rightarrow> string \<Rightarrow> nat option" where
  "scan_digits base acc prev_us [] = (if prev_us then None else acc)"
| "scan_digits base acc prev_us (c # cs) =
     (if c = CHR ''_'' then (if prev_us then None else scan_digits base acc True cs)
      else (case digit_value c of
              None \<Rightarrow> None
            | Some d \<Rightarrow>
                if d < base
                then scan_digits base (Some (case acc of None \<Rightarrow> d | Some a \<Rightarrow> a * base + d)) False cs
                else None))"

definition strip :: "string \<Rightarrow> string" where
  "strip s = rev (dropWhile py_isspace (rev (dropWhile py_isspace s)))"

definition skip_sign :: "string \<Rightarrow> bool \<times> string" where
  "skip_sign s = (case s of
       [] \<Rightarrow> (False, s)
     | c # r \<Rightarrow> if c = CHR ''+'' then (False, r) else if c = CHR ''-'' then (True, r) else (False, s))"

definition skip_prefix :: "nat \<Rightarrow> string \<Rightarrow> string" where
  "skip_prefix base s = (case s of
       c0 # c1 # r \<Rightarrow>
         if c0 = CHR ''0'' \<and> ((base = 16 \<and> (c1 = CHR ''x'' \<or> c1 = CHR ''X''))
                              \<or> (base = 2 \<and> (c1 = CHR ''b'' \<or> c1 = CHR ''B'')))
         then (case r of u # r' \<Rightarrow> if u = CHR ''_'' then r' else r | [] \<Rightarrow> r)
         else s
     | _ \<Rightarrow> s)"

definition digits_value :: "nat \<Rightarrow> string \<Rightarrow> nat option" where
  "digits_value base v =
     (if v \<noteq> [] \<and> hd v = CHR ''_'' then None else scan_digits base None False v)"

definition too_many_digits :: "nat \<Rightarrow> string \<Rightarrow> bool" where
  "too_many_digits base v =
     (base \<notin> {2, 4, 8, 16, 32} \<and> 4300 < length (filter (\<lambda>c. c \<noteq> CHR ''_'') v))"

definition py_int :: "nat \<Rightarrow> string \<Rightarrow> py_error + int" where
  "py_int base s =
     (case skip_sign (strip s) of
        (neg, u) \<Rightarrow>
          (case digits_value base (skip_prefix base u) of
             None \<Rightarrow> Inl ValueError
           | Some n \<Rightarrow>
               if too_many_digits base (skip_prefix base u) then Inl ValueError
               else Inr (if neg then - int n else int n)))"

subsection \<open>The element tree\<close>

text \<open>
  An \<^verbatim>\<open>xml.etree.ElementTree.Element\<close>: a tag, the attribute dictionary and the child
  elements in document order. The dictionary is an association list read with
  \<^const>\<open>map_of\<close>.
\<close>

datatype element = Element (tag: string) (attrib: "(string \<times> string) list") (children: "element list")

definition attr :: "element \<Rightarrow> string \<Rightarrow> string option" where
  \<comment> \<open>\<^verbatim>\<open>e.attrib.get(k)\<close>\<close>
  "attr e k = map_of (attrib e) k"

definition has_attr :: "string \<Rightarrow> element \<Rightarrow> bool" where
  \<comment> \<open>\<^verbatim>\<open>k in e.attrib\<close>\<close>
  "has_attr k e = (attr e k \<noteq> None)"

definition attr_item :: "element \<Rightarrow> string \<Rightarrow> py_error + string" where
  \<comment> \<open>\<^verbatim>\<open>e.attrib[k]\<close>\<close>
  "attr_item e k = (case attr e k of None \<Rightarrow> Inl KeyError | Some v \<Rightarrow> Inr v)"

definition findall :: "element \<Rightarrow> string \<Rightarrow> string \<Rightarrow> element list" where
  \<comment> \<open>\<^verbatim>\<open>e.findall("a/b")\<close>: the children tagged \<open>b\<close> of the children tagged \<open>a\<close>\<close>
  "findall e a b =
     concat (map (\<lambda>c. filter (\<lambda>d. tag d = b) (children c)) (filter (\<lambda>c. tag c = a) (children e)))"

definition py_bool :: "string \<Rightarrow> py_error + bool" where
  \<comment> \<open>\<^verbatim>\<open>{"true": True, "false": False}[s]\<close>\<close>
  "py_bool s = (if s = ''true'' then Inr True else if s = ''false'' then Inr False else Inl KeyError)"

subsection \<open>Operands\<close>

record Operand =
  type :: string
  is_input :: bool
  is_output :: bool

definition is_variable :: "Operand \<Rightarrow> bool" where
  "is_variable operand = (is_input operand \<or> is_output operand)"

definition is_register :: "Operand \<Rightarrow> bool" where
  "is_register operand =
     (type operand \<in> {''al'', ''cl'', ''ax'', ''eax'', ''rax'', ''xmm0'', ''r8'', ''r16'', ''r32'',
                       ''r64'', ''r8l'', ''r16l'', ''r32l'', ''mm'', ''xmm'', ''ymm''})"

definition is_memory :: "Operand \<Rightarrow> bool" where
  "is_memory operand =
     (type operand \<in> {''m'', ''m8'', ''m16'', ''m32'', ''m64'', ''m80'', ''m128'', ''m256'', ''m512''})"

subsection \<open>Encoding components\<close>

text \<open>
  A field of a component holds \<^verbatim>\<open>None\<close> (the bit is ignored), an integer, or a
  reference to one of the operands of the owning form. Each operand object is created
  once and appended to the form's list, so a reference is the position of the object in
  that list.
\<close>

datatype source = Ignored | Literal int | OperandRef nat

record Prefix =
  byte :: int
  is_mandatory :: bool

record REX =
  is_mandatory :: bool
  W :: source
  R :: source
  X :: source
  B :: source

record VEX =
  mmmmm :: int
  pp :: int
  W :: source
  L :: source
  R :: source
  X :: source
  B :: source
  vvvv :: source

record Opcode =
  byte :: int
  addend :: "nat option"

record ModRM =
  mode :: source
  rm :: nat
  reg :: source

datatype component =
    PrefixC Prefix
  | REXC REX
  | VEXC VEX
  | OpcodeC Opcode
  | ModRMC ModRM
  | ImmediateByte nat
  | ImmediateWord nat
  | ImmediateDWord nat
  | ImmediateQWord nat
  | CodeOffset32 nat
  | CodeOffset8 nat
  | DataOffset32 nat
  | DataOffset64 nat

record Encoding =
  components :: "component list"

subsection \<open>State shared by the loops\<close>

text \<open>
  \<^verbatim>\<open>rex\<close> is a local variable of \<^verbatim>\<open>read_instruction_set\<close>: unbound until the
  first \<^verbatim>\<open>REX\<close> component is read and bound to the latest \<^verbatim>\<open>REX\<close> object from
  then on, across encodings, forms and instructions. \<^verbatim>\<open>stdout\<close> collects the lines
  printed.
\<close>

record state =
  rex :: "REX option"
  stdout :: "string list"

fun for_each :: "('s \<Rightarrow> 'a \<Rightarrow> py_error + 's) \<Rightarrow> 'a list \<Rightarrow> 's \<Rightarrow> py_error + 's" where
  "for_each body [] s = Inr s"
| "for_each body (x # xs) s = (case body s x of Inl e \<Rightarrow> Inl e | Inr s' \<Rightarrow> for_each body xs s')"

subsection \<open>Resolving the fields of a component\<close>

definition subscript :: "'a list \<Rightarrow> int \<Rightarrow> py_error + nat" where
  \<comment> \<open>\<^verbatim>\<open>xs[i]\<close>, as the position of the element it returns: \<open>i\<close> itself, or
      \<open>len(xs) + i\<close> for a negative \<open>i\<close>; \<^verbatim>\<open>IndexError\<close> outside \<open>[-len(xs), len(xs))\<close>\<close>
  "subscript xs i =
     (if 0 \<le> i \<and> i < int (length xs) then Inr (nat i)
      else if i < 0 \<and> - int (length xs) \<le> i then Inr (nat (int (length xs) + i))
      else Inl IndexError)"

definition operand_number :: "Operand list \<Rightarrow> element \<Rightarrow> string \<Rightarrow> py_error + nat" where
  \<comment> \<open>\<^verbatim>\<open>instruction_form.operands[int(xml_component.attrib[k])]\<close>\<close>
  "operand_number operands e k =
     bind (attr_item e k) (\<lambda>s. bind (py_int 10 s) (\<lambda>i. subscript operands i))"

definition ignored_or_int :: "string \<Rightarrow> py_error + source" where
  \<comment> \<open>\<^verbatim>\<open>if v == "ignored": v = None else: v = int(v)\<close>\<close>
  "ignored_or_int v =
     (if v = ''ignored'' then Inr Ignored else bind (py_int 10 v) (\<lambda>n. Inr (Literal n)))"

definition int_of_rex :: "state \<Rightarrow> (REX \<Rightarrow> source) \<Rightarrow> py_error + int" where
  \<comment> \<open>\<^verbatim>\<open>int(rex.R)\<close>, \<^verbatim>\<open>int(rex.B)\<close>: the variable may be unbound, and \<^verbatim>\<open>int\<close>
      accepts neither \<^verbatim>\<open>None\<close> nor an \<^verbatim>\<open>Operand\<close>\<close>
  "int_of_rex st field =
     (case rex st of
        None \<Rightarrow> Inl UnboundLocalError
      | Some r \<Rightarrow> (case field r of Literal n \<Rightarrow> Inr n | _ \<Rightarrow> Inl TypeError))"

definition rex_R :: "Operand list \<Rightarrow> element \<Rightarrow> py_error + source" where
  "rex_R operands e =
     (if has_attr ''R'' e then
        bind (py_assert (\<not> has_attr ''R-operand-number'' e)) (\<lambda>_.
        bind (attr_item e ''R'') ignored_or_int)
      else
        bind (py_assert (has_attr ''R-operand-number'' e)) (\<lambda>_.
        bind (operand_number operands e ''R-operand-number'') (\<lambda>j. Inr (OperandRef j))))"

definition rex_B :: "Operand list \<Rightarrow> element \<Rightarrow> py_error + source" where
  "rex_B operands e =
     (if has_attr ''B'' e then
        bind (py_assert (\<not> has_attr ''B-operand-number'' e)) (\<lambda>_.
        bind (py_assert (\<not> has_attr ''BX-operand-number'' e)) (\<lambda>_.
        bind (attr_item e ''B'') ignored_or_int))
      else if has_attr ''B-operand-number'' e then
        bind (py_assert (\<not> has_attr ''B'' e)) (\<lambda>_.
        bind (py_assert (\<not> has_attr ''BX-operand-number'' e)) (\<lambda>_.
        bind (operand_number operands e ''B-operand-number'') (\<lambda>j. Inr (OperandRef j))))
      else
        bind (py_assert (has_attr ''BX-operand-number'' e)) (\<lambda>_.
        bind (py_assert (\<not> has_attr ''B-operand-number'' e)) (\<lambda>_.
        bind (py_assert (\<not> has_attr ''B'' e)) (\<lambda>_.
        bind (py_assert (\<not> has_attr ''X'' e)) (\<lambda>_.
        bind (operand_number operands e ''BX-operand-number'') (\<lambda>j. Inr (OperandRef j)))))))"

definition field_X :: "Operand list \<Rightarrow> element \<Rightarrow> py_error + source" where
  \<comment> \<open>the same statements set \<^verbatim>\<open>rex.X\<close> and \<^verbatim>\<open>vex.X\<close>\<close>
  "field_X operands e =
     (if has_attr ''X'' e then
        bind (py_assert (\<not> has_attr ''BX-operand-number'' e)) (\<lambda>_.
        bind (attr_item e ''X'') ignored_or_int)
      else
        bind (py_assert (has_attr ''BX-operand-number'' e)) (\<lambda>_.
        bind (operand_number operands e ''BX-operand-number'') (\<lambda>j. Inr (OperandRef j))))"

definition vex_R :: "Operand list \<Rightarrow> state \<Rightarrow> element \<Rightarrow> py_error + source" where
  "vex_R operands st e =
     (if has_attr ''R'' e then
        bind (py_assert (\<not> has_attr ''R-operand-number'' e)) (\<lambda>_.
        bind (attr_item e ''R'') (\<lambda>v.
          if v = ''ignored'' then Inr Ignored
          else bind (int_of_rex st REX.R) (\<lambda>n. Inr (Literal n))))
      else
        bind (py_assert (has_attr ''R-operand-number'' e)) (\<lambda>_.
        bind (operand_number operands e ''R-operand-number'') (\<lambda>j. Inr (OperandRef j))))"

definition vex_B :: "Operand list \<Rightarrow> state \<Rightarrow> element \<Rightarrow> py_error + source" where
  "vex_B operands st e =
     (if has_attr ''B'' e then
        bind (py_assert (\<not> has_attr ''B-operand-number'' e)) (\<lambda>_.
        bind (py_assert (\<not> has_attr ''BX-operand-number'' e)) (\<lambda>_.
        bind (attr_item e ''B'') (\<lambda>v.
          if v = ''ignored'' then Inr Ignored
          else bind (int_of_rex st REX.B) (\<lambda>n. Inr (Literal n)))))
      else if has_attr ''B-operand-number'' e then
        bind (py_assert (\<not> has_attr ''B'' e)) (\<lambda>_.
        bind (py_assert (\<not> has_attr ''BX-operand-number'' e)) (\<lambda>_.
        bind (operand_number operands e ''B-operand-number'') (\<lambda>j. Inr (OperandRef j))))
      else
        bind (py_assert (has_attr ''BX-operand-number'' e)) (\<lambda>_.
        bind (py_assert (\<not> has_attr ''B-operand-number'' e)) (\<lambda>_.
        bind (py_assert (\<not> has_attr ''B'' e)) (\<lambda>_.
        bind (py_assert (\<not> has_attr ''X'' e)) (\<lambda>_.
        bind (operand_number operands e ''BX-operand-number'') (\<lambda>j. Inr (OperandRef j)))))))"

definition vex_vvvv :: "Operand list \<Rightarrow> element \<Rightarrow> py_error + source" where
  "vex_vvvv operands e =
     (if has_attr ''vvvv'' e then
        bind (py_assert (\<not> has_attr ''vvvv-operand-number'' e)) (\<lambda>_.
        bind (attr_item e ''vvvv'') (\<lambda>v.
        bind (py_assert (v = ''1111'')) (\<lambda>_.
        bind (py_int 2 v) (\<lambda>n. Inr (Literal n)))))
      else
        bind (py_assert (has_attr ''vvvv-operand-number'' e)) (\<lambda>_.
        bind (operand_number operands e ''vvvv-operand-number'') (\<lambda>j. Inr (OperandRef j))))"

subsection \<open>The branches of the component dispatch\<close>

definition read_Prefix :: "element \<Rightarrow> py_error + Prefix" where
  "read_Prefix e =
     bind (attr_item e ''mandatory'') (\<lambda>m.
     bind (py_bool m) (\<lambda>is_mandatory.
     bind (attr_item e ''byte'') (\<lambda>b.
     bind (py_int 16 b) (\<lambda>byte.
     bind (py_assert (byte \<in> {0x66, 0xF2, 0xF3})) (\<lambda>_.
     Inr \<lparr>Prefix.byte = byte, is_mandatory = is_mandatory\<rparr>)))))"

definition read_REX :: "Operand list \<Rightarrow> element \<Rightarrow> py_error + REX" where
  "read_REX operands e =
     bind (py_assert (has_attr ''mandatory'' e)) (\<lambda>_.
     bind (attr_item e ''mandatory'') (\<lambda>m.
     bind (py_bool m) (\<lambda>is_mandatory.
     bind (py_assert (has_attr ''W'' e)) (\<lambda>_.
     bind (attr_item e ''W'') (\<lambda>w.
     bind (ignored_or_int w) (\<lambda>W.
     bind (rex_R operands e) (\<lambda>R.
     bind (rex_B operands e) (\<lambda>B.
     bind (field_X operands e) (\<lambda>X.
     Inr \<lparr>REX.is_mandatory = is_mandatory, W = W, R = R, X = X, B = B\<rparr>)))))))))"

definition read_VEX :: "Operand list \<Rightarrow> state \<Rightarrow> element \<Rightarrow> py_error + VEX" where
  "read_VEX operands st e =
     bind (py_assert (has_attr ''W'' e)) (\<lambda>_.
     bind (attr_item e ''W'') (\<lambda>w.
     bind (ignored_or_int w) (\<lambda>W.
     bind (py_assert (has_attr ''L'' e)) (\<lambda>_.
     bind (attr_item e ''L'') (\<lambda>l.
     bind (ignored_or_int l) (\<lambda>L.
     bind (attr_item e ''m-mmmm'') (\<lambda>m.
     bind (py_int 2 m) (\<lambda>mmmmm.
     bind (attr_item e ''pp'') (\<lambda>p.
     bind (py_int 2 p) (\<lambda>pp.
     bind (vex_R operands st e) (\<lambda>R.
     bind (vex_B operands st e) (\<lambda>B.
     bind (field_X operands e) (\<lambda>X.
     bind (vex_vvvv operands e) (\<lambda>vvvv.
     Inr \<lparr>mmmmm = mmmmm, pp = pp, W = W, L = L, R = R, X = X, B = B, vvvv = vvvv\<rparr>))))))))))))))"

definition read_Opcode :: "Operand list \<Rightarrow> element \<Rightarrow> py_error + Opcode" where
  "read_Opcode operands e =
     bind (attr_item e ''byte'') (\<lambda>b.
     bind (py_int 16 b) (\<lambda>byte.
     if has_attr ''addend-operand-number'' e then
       bind (operand_number operands e ''addend-operand-number'') (\<lambda>j.
       Inr \<lparr>Opcode.byte = byte, addend = Some j\<rparr>)
     else Inr \<lparr>Opcode.byte = byte, addend = None\<rparr>))"

definition modrm_mode :: "Operand list \<Rightarrow> element \<Rightarrow> py_error + source" where
  "modrm_mode operands e =
     (if has_attr ''mode'' e then
        bind (attr_item e ''mode'') (\<lambda>m.
        bind (py_int 2 m) (\<lambda>mode.
        bind (py_assert (mode = 3)) (\<lambda>_. Inr (Literal mode))))
      else
        bind (py_assert (has_attr ''mode-operand-number'' e)) (\<lambda>_.
        bind (attr_item e ''mode-operand-number'') (\<lambda>a.
        bind (attr_item e ''rm-operand-number'') (\<lambda>b.
        bind (py_assert (a = b)) (\<lambda>_.
        bind (operand_number operands e ''mode-operand-number'') (\<lambda>j. Inr (OperandRef j)))))))"

definition modrm_reg :: "Operand list \<Rightarrow> element \<Rightarrow> py_error + source" where
  "modrm_reg operands e =
     (if has_attr ''reg'' e then
        bind (attr_item e ''reg'') (\<lambda>r.
        bind (py_int 10 r) (\<lambda>reg.
        bind (py_assert (0 \<le> reg \<and> reg \<le> 7)) (\<lambda>_. Inr (Literal reg))))
      else
        bind (py_assert (has_attr ''reg-operand-number'' e)) (\<lambda>_.
        bind (operand_number operands e ''reg-operand-number'') (\<lambda>j. Inr (OperandRef j))))"

definition read_ModRM :: "Operand list \<Rightarrow> element \<Rightarrow> py_error + ModRM" where
  "read_ModRM operands e =
     bind (modrm_mode operands e) (\<lambda>mode.
     bind (modrm_reg operands e) (\<lambda>reg.
     bind (py_assert (has_attr ''rm-operand-number'' e)) (\<lambda>_.
     bind (operand_number operands e ''rm-operand-number'') (\<lambda>rm.
     Inr \<lparr>mode = mode, rm = rm, reg = reg\<rparr>))))"

definition read_Immediate :: "Operand list \<Rightarrow> element \<Rightarrow> py_error + component" where
  "read_Immediate operands e =
     bind (py_assert (has_attr ''size'' e)) (\<lambda>_.
     bind (attr_item e ''size'') (\<lambda>s.
     bind (py_int 10 s) (\<lambda>immediate_size.
     bind (py_assert (immediate_size \<in> {1, 2, 4, 8})) (\<lambda>_.
     if immediate_size = 1 then
       (if has_attr ''operand-number'' e
        then bind (operand_number operands e ''operand-number'') (\<lambda>j. Inr (ImmediateByte j))
        else Inl AssertionError)
     else if immediate_size = 2 then
       bind (py_assert (has_attr ''operand-number'' e)) (\<lambda>_.
       bind (operand_number operands e ''operand-number'') (\<lambda>j. Inr (ImmediateWord j)))
     else if immediate_size = 4 then
       bind (py_assert (has_attr ''operand-number'' e)) (\<lambda>_.
       bind (operand_number operands e ''operand-number'') (\<lambda>j. Inr (ImmediateDWord j)))
     else if immediate_size = 8 then
       bind (py_assert (has_attr ''operand-number'' e)) (\<lambda>_.
       bind (operand_number operands e ''operand-number'') (\<lambda>j. Inr (ImmediateQWord j)))
     else Inl AssertionError))))"

definition read_CodeOffset :: "Operand list \<Rightarrow> element \<Rightarrow> py_error + component" where
  "read_CodeOffset operands e =
     bind (attr_item e ''size'') (\<lambda>s.
     bind (py_int 10 s) (\<lambda>offset_size.
     bind (py_assert (offset_size \<in> {1, 4})) (\<lambda>_.
     if offset_size = 1 then
       bind (operand_number operands e ''operand-number'') (\<lambda>j. Inr (CodeOffset8 j))
     else if offset_size = 4 then
       bind (operand_number operands e ''operand-number'') (\<lambda>j. Inr (CodeOffset32 j))
     else Inl AssertionError)))"

definition read_DataOffset :: "Operand list \<Rightarrow> element \<Rightarrow> py_error + component" where
  "read_DataOffset operands e =
     bind (attr_item e ''size'') (\<lambda>s.
     bind (py_int 10 s) (\<lambda>offset_size.
     bind (py_assert (offset_size \<in> {4, 8})) (\<lambda>_.
     if offset_size = 4 then
       bind (operand_number operands e ''operand-number'') (\<lambda>j. Inr (DataOffset32 j))
     else if offset_size = 8 then
       bind (operand_number operands e ''operand-number'') (\<lambda>j. Inr (DataOffset64 j))
     else Inl AssertionError)))"

text \<open>
  One pass of the innermost loop body: the component appended to
  \<^verbatim>\<open>encoding.components\<close>, if any, and the state afterwards. The \<^verbatim>\<open>REX\<close> branch
  binds \<^verbatim>\<open>rex\<close> before it fills the fields in; an exception in between ends the load,
  so only the completed object is ever read through the variable. The last branch prints
  and appends nothing.
\<close>

definition read_component :: "Operand list \<Rightarrow> state \<Rightarrow> element \<Rightarrow> py_error + state \<times> component option" where
  "read_component operands st e =
     (if tag e = ''Prefix'' then
        bind (read_Prefix e) (\<lambda>prefix. Inr (st, Some (PrefixC prefix)))
      else if tag e = ''REX'' then
        bind (read_REX operands e) (\<lambda>r. Inr (st\<lparr>rex := Some r\<rparr>, Some (REXC r)))
      else if tag e = ''VEX'' then
        bind (read_VEX operands st e) (\<lambda>vex. Inr (st, Some (VEXC vex)))
      else if tag e = ''Opcode'' then
        bind (read_Opcode operands e) (\<lambda>opcode. Inr (st, Some (OpcodeC opcode)))
      else if tag e = ''ModRM'' then
        bind (read_ModRM operands e) (\<lambda>modrm. Inr (st, Some (ModRMC modrm)))
      else if tag e = ''Immediate'' then
        bind (read_Immediate operands e) (\<lambda>c. Inr (st, Some c))
      else if tag e = ''CodeOffset'' then
        bind (read_CodeOffset operands e) (\<lambda>c. Inr (st, Some c))
      else if tag e = ''DataOffset'' then
        bind (read_DataOffset operands e) (\<lambda>c. Inr (st, Some c))
      else Inr (st\<lparr>stdout := stdout st @ [''Unknown encoding tag: '' @ tag e]\<rparr>, None))"

definition append_component :: "Encoding \<Rightarrow> component option \<Rightarrow> Encoding" where
  "append_component encoding c =
     (case c of None \<Rightarrow> encoding
      | Some x \<Rightarrow> encoding\<lparr>components := components encoding @ [x]\<rparr>)"

definition component_step :: "Operand list \<Rightarrow> state \<times> Encoding \<Rightarrow> element \<Rightarrow> py_error + state \<times> Encoding" where
  "component_step operands s e =
     bind (read_component operands (fst s) e) (\<lambda>r. Inr (fst r, append_component (snd s) (snd r)))"

definition read_Encoding :: "Operand list \<Rightarrow> state \<Rightarrow> element \<Rightarrow> py_error + state \<times> Encoding" where
  "read_Encoding operands st xml_encoding =
     for_each (component_step operands) (children xml_encoding) (st, \<lparr>components = []\<rparr>)"

subsection \<open>Forms, instructions and the instruction set\<close>

record ISAExtension =
  name :: string

record InstructionForm =
  name :: string
  gas_name :: "string option"
  go_name :: "string option"
  mmx_mode :: "string option"
  xmm_mode :: "string option"
  operands :: "Operand list"
  implicit_inputs :: "string set"
  implicit_outputs :: "string set"
  isa_extensions :: "ISAExtension list"
  encodings :: "Encoding list"

record Instruction =
  name :: string
  summary :: "string option"
  forms :: "InstructionForm list"

definition read_Operand :: "element \<Rightarrow> py_error + Operand" where
  "read_Operand e =
     bind (attr_item e ''type'') (\<lambda>t.
     bind (py_bool (case attr e ''input'' of None \<Rightarrow> ''false'' | Some v \<Rightarrow> v)) (\<lambda>i.
     bind (py_bool (case attr e ''output'' of None \<Rightarrow> ''false'' | Some v \<Rightarrow> v)) (\<lambda>out.
     Inr \<lparr>type = t, is_input = i, is_output = out\<rparr>)))"

definition operand_step :: "Operand list \<Rightarrow> element \<Rightarrow> py_error + Operand list" where
  "operand_step acc e = bind (read_Operand e) (\<lambda>operand. Inr (acc @ [operand]))"

definition form_operands :: "element \<Rightarrow> py_error + Operand list" where
  \<comment> \<open>the loop over \<^verbatim>\<open>findall("Operands/Operand")\<close>\<close>
  "form_operands xml_form = for_each operand_step (findall xml_form ''Operands'' ''Operand'') []"

definition implicit_step :: "string set \<times> string set \<Rightarrow> element \<Rightarrow> py_error + string set \<times> string set" where
  "implicit_step s e =
     bind (attr_item e ''input'') (\<lambda>i.
     bind (if i = ''true'' then bind (attr_item e ''id'') (\<lambda>x. Inr (insert x (fst s)))
           else Inr (fst s)) (\<lambda>ins.
     bind (attr_item e ''output'') (\<lambda>out.
     bind (if out = ''true'' then bind (attr_item e ''id'') (\<lambda>x. Inr (insert x (snd s)))
           else Inr (snd s)) (\<lambda>outs.
     Inr (ins, outs)))))"

definition isa_step :: "ISAExtension list \<Rightarrow> element \<Rightarrow> py_error + ISAExtension list" where
  "isa_step acc e =
     bind (py_assert (has_attr ''id'' e)) (\<lambda>_.
     bind (attr_item e ''id'') (\<lambda>x. Inr (acc @ [\<lparr>ISAExtension.name = x\<rparr>])))"

definition encoding_step :: "Operand list \<Rightarrow> state \<times> Encoding list \<Rightarrow> element \<Rightarrow> py_error + state \<times> Encoding list" where
  "encoding_step ops s e =
     bind (read_Encoding ops (fst s) e) (\<lambda>r. Inr (fst r, snd s @ [snd r]))"

definition read_InstructionForm :: "string \<Rightarrow> state \<Rightarrow> element \<Rightarrow> py_error + state \<times> InstructionForm" where
  "read_InstructionForm instruction_name st e =
     bind (attr_item e ''gas-name'') (\<lambda>gas.
     bind (form_operands e) (\<lambda>ops.
     bind (for_each implicit_step (findall e ''Operands'' ''ImplicitOperands'') ({}, {})) (\<lambda>imp.
     bind (for_each isa_step (findall e ''ISA'' ''Extension'') []) (\<lambda>exts.
     bind (for_each (encoding_step ops) (findall e ''Encodings'' ''Encoding'') (st, [])) (\<lambda>r.
     Inr (fst r,
          \<lparr>InstructionForm.name = instruction_name,
           gas_name = Some gas,
           go_name = attr e ''go-name'',
           mmx_mode = attr e ''mmx-mode'',
           xmm_mode = attr e ''xmm-mode'',
           operands = ops,
           implicit_inputs = fst imp,
           implicit_outputs = snd imp,
           isa_extensions = exts,
           encodings = snd r\<rparr>))))))"

definition form_step :: "string \<Rightarrow> state \<times> InstructionForm list \<Rightarrow> element \<Rightarrow> py_error + state \<times> InstructionForm list" where
  "form_step instruction_name s e =
     bind (read_InstructionForm instruction_name (fst s) e) (\<lambda>r. Inr (fst r, snd s @ [snd r]))"

definition read_Instruction :: "state \<Rightarrow> element \<Rightarrow> py_error + state \<times> Instruction" where
  "read_Instruction st e =
     bind (py_assert (tag e = ''Instruction'')) (\<lambda>_.
     bind (attr_item e ''name'') (\<lambda>nm.
     bind (attr_item e ''summary'') (\<lambda>sm.
     bind (for_each (form_step nm) (children e) (st, [])) (\<lambda>r.
     Inr (fst r, \<lparr>Instruction.name = nm, summary = Some sm, forms = snd r\<rparr>)))))"

definition instruction_step :: "state \<times> Instruction list \<Rightarrow> element \<Rightarrow> py_error + state \<times> Instruction list" where
  "instruction_step s e =
     bind (read_Instruction (fst s) e) (\<lambda>r. Inr (fst r, snd s @ [snd r]))"

definition run_instruction_set :: "element \<Rightarrow> py_error + state \<times> Instruction list" where
  \<comment> \<open>the body of \<^verbatim>\<open>read_instruction_set\<close> on the root of the parsed document, with the
      final state\<close>
  "run_instruction_set xml_instruction_set =
     bind (py_assert (tag xml_instruction_set = ''InstructionSet'')) (\<lambda>_.
     bind (attr_item xml_instruction_set ''name'') (\<lambda>n.
     bind (py_assert (n = ''x86-64'')) (\<lambda>_.
     for_each instruction_step (children xml_instruction_set) (\<lparr>rex = None, stdout = []\<rparr>, []))))"

definition read_instruction_set :: "element \<Rightarrow> py_error + Instruction list" where
  "read_instruction_set xml_instruction_set =
     bind (run_instruction_set xml_instruction_set) (\<lambda>r. Inr (snd r))"

subsection \<open>Notions used in the statements\<close>

text \<open>The operand positions a component refers to.\<close>

fun source_refs :: "source \<Rightarrow> nat list" where
  "source_refs Ignored = []"
| "source_refs (Literal n) = []"
| "source_refs (OperandRef j) = [j]"

fun component_refs :: "component \<Rightarrow> nat list" where
  "component_refs (PrefixC p) = []"
| "component_refs (REXC r) =
     source_refs (REX.W r) @ source_refs (REX.R r) @ source_refs (REX.X r) @ source_refs (REX.B r)"
| "component_refs (VEXC v) =
     source_refs (VEX.W v) @ source_refs (L v) @ source_refs (VEX.R v) @ source_refs (VEX.X v)
       @ source_refs (VEX.B v) @ source_refs (vvvv v)"
| "component_refs (OpcodeC opc) = (case addend opc of None \<Rightarrow> [] | Some j \<Rightarrow> [j])"
| "component_refs (ModRMC m) = source_refs (mode m) @ [rm m] @ source_refs (reg m)"
| "component_refs (ImmediateByte j) = [j]"
| "component_refs (ImmediateWord j) = [j]"
| "component_refs (ImmediateDWord j) = [j]"
| "component_refs (ImmediateQWord j) = [j]"
| "component_refs (CodeOffset32 j) = [j]"
| "component_refs (CodeOffset8 j) = [j]"
| "component_refs (DataOffset32 j) = [j]"
| "component_refs (DataOffset64 j) = [j]"

definition encoding_refs :: "Encoding \<Rightarrow> nat list" where
  "encoding_refs encoding = concat (map component_refs (components encoding))"

definition form_refs :: "InstructionForm \<Rightarrow> nat list" where
  "form_refs f = concat (map encoding_refs (encodings f))"

definition form_in_bounds :: "InstructionForm \<Rightarrow> bool" where
  "form_in_bounds f = list_all (\<lambda>j. j < length (operands f)) (form_refs f)"

definition references_in_bounds :: "Instruction list \<Rightarrow> bool" where
  "references_in_bounds instruction_set =
     list_all (\<lambda>instruction. list_all form_in_bounds (forms instruction)) instruction_set"

text \<open>The component declarations the loops visit, in document order.\<close>

definition form_components :: "element \<Rightarrow> element list" where
  "form_components xml_form = concat (map children (findall xml_form ''Encodings'' ''Encoding''))"

definition component_declarations :: "element \<Rightarrow> element list" where
  "component_declarations xml_instruction_set =
     concat (map (\<lambda>xml_instruction. concat (map form_components (children xml_instruction)))
                 (children xml_instruction_set))"

text \<open>
  The attributes through which the branch for the tag of a declaration subscripts the
  operand list when it runs to its end: the \<^verbatim>\<open>-operand-number\<close> attribute of each
  field that has no literal attribute, following the \<^verbatim>\<open>if\<close>/\<^verbatim>\<open>elif\<close> chains of
  the source.
\<close>

definition operand_links :: "element \<Rightarrow> string list" where
  "operand_links e =
     (if tag e = ''REX'' \<or> tag e = ''VEX'' then
        (if has_attr ''R'' e then [] else [''R-operand-number''])
        @ (if has_attr ''B'' e then []
           else if has_attr ''B-operand-number'' e then [''B-operand-number'']
           else [''BX-operand-number''])
        @ (if has_attr ''X'' e then [] else [''BX-operand-number''])
        @ (if tag e = ''VEX'' \<and> \<not> has_attr ''vvvv'' e then [''vvvv-operand-number''] else [])
      else if tag e = ''Opcode'' then
        (if has_attr ''addend-operand-number'' e then [''addend-operand-number''] else [])
      else if tag e = ''ModRM'' then
        (if has_attr ''mode'' e then [] else [''mode-operand-number''])
        @ (if has_attr ''reg'' e then [] else [''reg-operand-number''])
        @ [''rm-operand-number'']
      else if tag e = ''Immediate'' \<or> tag e = ''CodeOffset'' \<or> tag e = ''DataOffset'' then
        [''operand-number'']
      else [])"

text \<open>The tags the dispatch has a branch for, and the line printed for any other.\<close>

definition known_tag :: "element \<Rightarrow> bool" where
  "known_tag e =
     (tag e \<in> {''Prefix'', ''REX'', ''VEX'', ''Opcode'', ''ModRM'', ''Immediate'', ''CodeOffset'',
                ''DataOffset''})"

definition unknown_tag :: "element \<Rightarrow> bool" where
  "unknown_tag e = (\<not> known_tag e)"

definition unknown_message :: "element \<Rightarrow> string" where
  "unknown_message e = ''Unknown encoding tag: '' @ tag e"

text \<open>A document without the component declarations that have no branch.\<close>

definition strip_encoding :: "element \<Rightarrow> element" where
  "strip_encoding e = Element (tag e) (attrib e) (filter known_tag (children e))"

definition strip_encodings :: "element \<Rightarrow> element" where
  "strip_encodings g =
     (if tag g = ''Encodings''
      then Element (tag g) (attrib g)
             (map (\<lambda>e. if tag e = ''Encoding'' then strip_encoding e else e) (children g))
      else g)"

definition strip_form :: "element \<Rightarrow> element" where
  "strip_form f = Element (tag f) (attrib f) (map strip_encodings (children f))"

definition strip_instruction :: "element \<Rightarrow> element" where
  "strip_instruction i = Element (tag i) (attrib i) (map strip_form (children i))"

definition strip_document :: "element \<Rightarrow> element" where
  "strip_document root = Element (tag root) (attrib root) (map strip_instruction (children root))"

definition with_stdout :: "string list \<Rightarrow> py_error + state \<times> 'a \<Rightarrow> py_error + state \<times> 'a" where
  "with_stdout out r =
     (case r of Inl e \<Rightarrow> Inl e | Inr p \<Rightarrow> Inr ((fst p)\<lparr>stdout := out\<rparr>, snd p))"

subsection \<open>Sample documents\<close>

text \<open>
  A document with the root the loader expects, one instruction, one form, the given
  operand declarations and one encoding made of the given component declarations.
\<close>

definition single_form_document :: "element list \<Rightarrow> element list \<Rightarrow> element" where
  "single_form_document xml_operands xml_components =
     Element ''InstructionSet'' [(''name'', ''x86-64'')]
       [Element ''Instruction'' [(''name'', ''ADD''), (''summary'', ''Add'')]
          [Element ''InstructionForm'' [(''gas-name'', ''add'')]
             [Element ''Operands'' [] xml_operands,
              Element ''Encodings'' [] [Element ''Encoding'' [] xml_components]]]]"

definition rex_zero :: element where
  "rex_zero =
     Element ''REX'' [(''mandatory'', ''false''), (''W'', ''0''), (''R'', ''0''), (''B'', ''0''),
                      (''X'', ''0'')] []"

definition vex_one :: element where
  "vex_one =
     Element ''VEX'' [(''W'', ''0''), (''L'', ''0''), (''m-mmmm'', ''00001''), (''pp'', ''01''),
                      (''R'', ''1''), (''B'', ''1''), (''X'', ''ignored''), (''vvvv'', ''1111'')] []"

definition vex_without_rex_document :: element where
  "vex_without_rex_document = single_form_document [] [vex_one]"

definition vex_after_rex_document :: element where
  "vex_after_rex_document = single_form_document [] [rex_zero, vex_one]"

definition wide_opcode_document :: element where
  "wide_opcode_document =
     single_form_document
       [Element ''Operand'' [(''type'', ''imm8''), (''input'', ''true'')] []]
       [Element ''Opcode'' [(''byte'', ''1FF''), (''addend-operand-number'', ''0'')] []]"

definition odd_vex_document :: element where
  "odd_vex_document =
     single_form_document []
       [Element ''VEX'' [(''W'', ''0''), (''L'', ''0''), (''m-mmmm'', ''00100''), (''pp'', ''111''),
                         (''R'', ''ignored''), (''B'', ''ignored''), (''X'', ''ignored''),
                         (''vvvv'', ''1111'')] []]"

definition negative_index_document :: element where
  "negative_index_document =
     single_form_document
       [Element ''Operand'' [(''type'', ''r64''), (''input'', ''true'')] []]
       [Element ''Opcode'' [(''byte'', ''50''), (''addend-operand-number'', ''-1'')] []]"

definition modrm_linked :: element where
  "modrm_linked =
     Element ''ModRM'' [(''mode-operand-number'', ''1''), (''rm-operand-number'', ''1''),
                        (''reg-operand-number'', ''0'')] []"

definition modrm_literal :: element where
  "modrm_literal =
     Element ''ModRM'' [(''mode'', ''11''), (''reg'', ''5''), (''rm-operand-number'', ''0'')] []"

definition two_operands :: "element list" where
  "two_operands =
     [Element ''Operand'' [(''type'', ''r32''), (''input'', ''true''), (''output'', ''true'')] [],
      Element ''Operand'' [(''type'', ''m32''), (''input'', ''true'')] []]"

definition modrm_document :: element where
  "modrm_document = single_form_document two_operands [modrm_linked, modrm_literal]"

definition sized :: "string \<Rightarrow> string \<Rightarrow> element" where
  "sized t width = Element t [(''size'', width), (''operand-number'', ''1'')] []"

definition immediate_byte :: element where
  "immediate_byte = sized ''Immediate'' ''1''"

definition code_offset_dword :: element where
  "code_offset_dword = sized ''CodeOffset'' ''4''"

definition data_offset_qword :: element where
  "data_offset_qword = sized ''DataOffset'' ''8''"

definition sized_document :: element where
  "sized_document =
     single_form_document two_operands
       [immediate_byte, sized ''Immediate'' ''2'', sized ''Immediate'' ''4'',
        sized ''Immediate'' ''8'', sized ''CodeOffset'' ''1'', code_offset_dword,
        sized ''DataOffset'' ''4'', data_offset_qword]"

text \<open>What a document made by \<^const>\<open>single_form_document\<close> loads to, when it loads.\<close>

definition single_form_model :: "Operand list \<Rightarrow> component list \<Rightarrow> Instruction list" where
  "single_form_model ops cs =
     [\<lparr>Instruction.name = ''ADD'', summary = Some ''Add'',
       forms =
         [\<lparr>InstructionForm.name = ''ADD'', gas_name = Some ''add'', go_name = None,
            mmx_mode = None, xmm_mode = None, operands = ops, implicit_inputs = {},
            implicit_outputs = {}, isa_extensions = [],
            encodings = [\<lparr>components = cs\<rparr>]\<rparr>]\<rparr>]"

definition rex_combined :: element where
  "rex_combined =
     Element ''REX'' [(''mandatory'', ''true''), (''W'', ''1''), (''R-operand-number'', ''0''),
                      (''BX-operand-number'', ''1'')] []"

definition rex_document :: element where
  "rex_document = single_form_document two_operands [rex_combined]"

definition mixed_components :: "element list" where
  "mixed_components =
     [Element ''Opcode'' [(''byte'', ''0F'')] [],
      Element ''Padding'' [] [],
      Element ''Opcode'' [(''byte'', ''90'')] []]"

definition form_without_go_name :: element where
  "form_without_go_name = Element ''InstructionForm'' [(''gas-name'', ''nop'')] []"

definition form_without_gas_name :: element where
  "form_without_gas_name = Element ''InstructionForm'' [(''go-name'', ''NOPL'')] []"

definition no_gas_name_document :: element where
  "no_gas_name_document =
     Element ''InstructionSet'' [(''name'', ''x86-64'')]
       [Element ''Instruction'' [(''name'', ''NOP''), (''summary'', ''No Operation'')]
          [form_without_gas_name]]"

section \<open>Properties\<close>

subsection \<open>Sequencing, loops and subscripts\<close>

lemma bind_eq_Inr: "bind m f = Inr y \<longleftrightarrow> (\<exists>x. m = Inr x \<and> f x = Inr y)"
  by (cases m) (simp_all add: bind_def)

lemma bind_Inl: "bind (Inl e) f = Inl e"
  by (simp add: bind_def)

lemma bind_Inr: "bind (Inr x) f = f x"
  by (simp add: bind_def)

lemma py_assert_eq_Inr: "py_assert b = Inr u \<longleftrightarrow> b"
  by (simp add: py_assert_def)

lemma attr_item_eq_Inr: "attr_item e k = Inr v \<longleftrightarrow> attr e k = Some v"
  by (simp add: attr_item_def split: option.splits)

lemma for_each_append:
  "for_each body (xs @ ys) s = bind (for_each body xs s) (for_each body ys)"
  by (induction xs arbitrary: s) (simp_all add: bind_def split: sum.splits)

lemma for_each_member:
  "for_each body xs s = Inr s' \<Longrightarrow> x \<in> set xs \<Longrightarrow> \<exists>a b. body a x = Inr b"
proof (induction xs arbitrary: s)
  case Nil
  then show ?case by simp
next
  case (Cons y ys)
  then obtain t where step: "body s y = Inr t" and rest: "for_each body ys t = Inr s'"
    by (auto split: sum.splits)
  show ?case
  proof (cases "x = y")
    case True
    with step show ?thesis by blast
  next
    case False
    with Cons.prems(2) have "x \<in> set ys" by simp
    with Cons.IH rest show ?thesis by blast
  qed
qed

lemma for_each_invariant:
  assumes "for_each body xs s = Inr s'" and "P s"
    and "\<And>a x b. x \<in> set xs \<Longrightarrow> P a \<Longrightarrow> body a x = Inr b \<Longrightarrow> P b"
  shows "P s'"
  using assms
proof (induction xs arbitrary: s)
  case Nil
  then show ?case by simp
next
  case (Cons y ys)
  then obtain t where step: "body s y = Inr t" and rest: "for_each body ys t = Inr s'"
    by (auto split: sum.splits)
  have "P t" using Cons.prems(3) [of y s t] Cons.prems(2) step by simp
  moreover have "\<And>a x b. x \<in> set ys \<Longrightarrow> P a \<Longrightarrow> body a x = Inr b \<Longrightarrow> P b"
    using Cons.prems(3) by (meson list.set_intros(2))
  ultimately show ?case using Cons.IH [OF rest] by blast
qed

lemma subscript_eq_Inr:
  "subscript xs i = Inr j \<longleftrightarrow>
     - int (length xs) \<le> i \<and> i < int (length xs) \<and> j = nat (if i < 0 then int (length xs) + i else i)"
  by (auto simp add: subscript_def)

lemma subscript_bound: "subscript xs i = Inr j \<Longrightarrow> j < length xs"
  by (auto simp add: subscript_def split: if_splits)

lemma operand_number_eq_Inr:
  "operand_number ops e k = Inr j \<longleftrightarrow>
     (\<exists>s i. attr e k = Some s \<and> py_int 10 s = Inr i \<and> subscript ops i = Inr j)"
  by (simp add: operand_number_def bind_eq_Inr attr_item_eq_Inr)

lemma operand_number_bound: "operand_number ops e k = Inr j \<Longrightarrow> j < length ops"
  by (auto simp add: operand_number_eq_Inr dest: subscript_bound)

subsection \<open>References produced by one component\<close>

lemma ignored_or_int_refs: "ignored_or_int v = Inr s \<Longrightarrow> source_refs s = []"
  by (auto simp add: ignored_or_int_def bind_eq_Inr split: if_splits)

lemma rex_R_refs: "rex_R ops e = Inr s \<Longrightarrow> \<forall>j \<in> set (source_refs s). j < length ops"
  by (auto simp add: rex_R_def bind_eq_Inr split: if_splits
           dest: ignored_or_int_refs operand_number_bound)

lemma rex_B_refs: "rex_B ops e = Inr s \<Longrightarrow> \<forall>j \<in> set (source_refs s). j < length ops"
  by (auto simp add: rex_B_def bind_eq_Inr split: if_splits
           dest: ignored_or_int_refs operand_number_bound)

lemma field_X_refs: "field_X ops e = Inr s \<Longrightarrow> \<forall>j \<in> set (source_refs s). j < length ops"
  by (auto simp add: field_X_def bind_eq_Inr split: if_splits
           dest: ignored_or_int_refs operand_number_bound)

lemma vex_R_refs: "vex_R ops st e = Inr s \<Longrightarrow> \<forall>j \<in> set (source_refs s). j < length ops"
  by (auto simp add: vex_R_def bind_eq_Inr split: if_splits
           dest: operand_number_bound)

lemma vex_B_refs: "vex_B ops st e = Inr s \<Longrightarrow> \<forall>j \<in> set (source_refs s). j < length ops"
  by (auto simp add: vex_B_def bind_eq_Inr split: if_splits
           dest: operand_number_bound)

lemma vex_vvvv_refs: "vex_vvvv ops e = Inr s \<Longrightarrow> \<forall>j \<in> set (source_refs s). j < length ops"
  by (auto simp add: vex_vvvv_def bind_eq_Inr split: if_splits
           dest: operand_number_bound)

lemma modrm_mode_refs: "modrm_mode ops e = Inr s \<Longrightarrow> \<forall>j \<in> set (source_refs s). j < length ops"
  by (auto simp add: modrm_mode_def bind_eq_Inr split: if_splits
           dest: operand_number_bound)

lemma modrm_reg_refs: "modrm_reg ops e = Inr s \<Longrightarrow> \<forall>j \<in> set (source_refs s). j < length ops"
  by (auto simp add: modrm_reg_def bind_eq_Inr split: if_splits
           dest: operand_number_bound)

lemma read_REX_refs:
  "read_REX ops e = Inr r \<Longrightarrow> \<forall>j \<in> set (component_refs (REXC r)). j < length ops"
  by (auto simp add: read_REX_def bind_eq_Inr
           dest: ignored_or_int_refs rex_R_refs rex_B_refs field_X_refs)

lemma read_VEX_refs:
  "read_VEX ops st e = Inr v \<Longrightarrow> \<forall>j \<in> set (component_refs (VEXC v)). j < length ops"
  by (auto simp add: read_VEX_def bind_eq_Inr
           dest: ignored_or_int_refs vex_R_refs vex_B_refs field_X_refs vex_vvvv_refs)

lemma read_Opcode_refs:
  "read_Opcode ops e = Inr opc \<Longrightarrow> \<forall>j \<in> set (component_refs (OpcodeC opc)). j < length ops"
  by (auto simp add: read_Opcode_def bind_eq_Inr split: if_splits dest: operand_number_bound)

lemma read_ModRM_refs:
  "read_ModRM ops e = Inr m \<Longrightarrow> \<forall>j \<in> set (component_refs (ModRMC m)). j < length ops"
  by (auto simp add: read_ModRM_def bind_eq_Inr
           dest: modrm_mode_refs modrm_reg_refs operand_number_bound)

lemma read_Immediate_refs:
  "read_Immediate ops e = Inr c \<Longrightarrow> \<forall>j \<in> set (component_refs c). j < length ops"
  by (auto simp add: read_Immediate_def bind_eq_Inr split: if_splits dest: operand_number_bound)

lemma read_CodeOffset_refs:
  "read_CodeOffset ops e = Inr c \<Longrightarrow> \<forall>j \<in> set (component_refs c). j < length ops"
  by (auto simp add: read_CodeOffset_def bind_eq_Inr split: if_splits dest: operand_number_bound)

lemma read_DataOffset_refs:
  "read_DataOffset ops e = Inr c \<Longrightarrow> \<forall>j \<in> set (component_refs c). j < length ops"
  by (auto simp add: read_DataOffset_def bind_eq_Inr split: if_splits dest: operand_number_bound)

lemma read_component_refs:
  assumes "read_component ops st e = Inr (st', Some c)"
  shows "\<forall>j \<in> set (component_refs c). j < length ops"
proof -
  consider (prefix) p where "c = PrefixC p"
    | (rex) r where "read_REX ops e = Inr r" "c = REXC r"
    | (vex) v where "read_VEX ops st e = Inr v" "c = VEXC v"
    | (opcode) opc where "read_Opcode ops e = Inr opc" "c = OpcodeC opc"
    | (modrm) m where "read_ModRM ops e = Inr m" "c = ModRMC m"
    | (imm) "read_Immediate ops e = Inr c"
    | (code) "read_CodeOffset ops e = Inr c"
    | (data) "read_DataOffset ops e = Inr c"
    using assms by (auto simp add: read_component_def bind_eq_Inr split: if_splits)
  then show ?thesis
  proof cases
    case prefix then show ?thesis by simp
  next
    case rex then show ?thesis using read_REX_refs by blast
  next
    case vex then show ?thesis using read_VEX_refs by blast
  next
    case opcode then show ?thesis using read_Opcode_refs by blast
  next
    case modrm then show ?thesis using read_ModRM_refs by blast
  next
    case imm then show ?thesis using read_Immediate_refs by blast
  next
    case code then show ?thesis using read_CodeOffset_refs by blast
  next
    case data then show ?thesis using read_DataOffset_refs by blast
  qed
qed

subsection \<open>References of a loaded instruction set\<close>

lemma component_step_refs:
  assumes "component_step ops s e = Inr s'"
    and "\<forall>j \<in> set (encoding_refs (snd s)). j < length ops"
  shows "\<forall>j \<in> set (encoding_refs (snd s')). j < length ops"
proof -
  from assms(1) obtain st' c where r: "read_component ops (fst s) e = Inr (st', c)"
    and s': "s' = (st', append_component (snd s) c)"
    by (auto simp add: component_step_def bind_eq_Inr)
  show ?thesis
  proof (cases c)
    case None
    with s' assms(2) show ?thesis by (simp add: append_component_def)
  next
    case (Some x)
    with r have "\<forall>j \<in> set (component_refs x). j < length ops"
      using read_component_refs by blast
    with Some s' assms(2) show ?thesis
      by (auto simp add: append_component_def encoding_refs_def)
  qed
qed

lemma read_Encoding_refs:
  assumes "read_Encoding ops st e = Inr r"
  shows "\<forall>j \<in> set (encoding_refs (snd r)). j < length ops"
proof -
  have start: "\<forall>j \<in> set (encoding_refs (snd (st, \<lparr>components = []\<rparr>))). j < length ops"
    by (simp add: encoding_refs_def)
  show ?thesis
    using for_each_invariant
      [where P = "\<lambda>s. \<forall>j \<in> set (encoding_refs (snd s)). j < length ops",
       OF assms [unfolded read_Encoding_def] start]
      component_step_refs
    by blast
qed

lemma encoding_step_refs:
  assumes "encoding_step ops s e = Inr s'"
    and "\<forall>enc \<in> set (snd s). \<forall>j \<in> set (encoding_refs enc). j < length ops"
  shows "\<forall>enc \<in> set (snd s'). \<forall>j \<in> set (encoding_refs enc). j < length ops"
proof -
  from assms(1) obtain r where r: "read_Encoding ops (fst s) e = Inr r"
    and s': "s' = (fst r, snd s @ [snd r])"
    by (auto simp add: encoding_step_def bind_eq_Inr)
  from read_Encoding_refs [OF r] s' assms(2) show ?thesis by auto
qed

lemma read_InstructionForm_in_bounds:
  assumes "read_InstructionForm nm st e = Inr r"
  shows "form_in_bounds (snd r)"
proof -
  from assms obtain ops encs where
    loop: "for_each (encoding_step ops) (findall e ''Encodings'' ''Encoding'') (st, []) = Inr encs"
    and ops: "operands (snd r) = ops" and encodings: "encodings (snd r) = snd encs"
    by (auto simp add: read_InstructionForm_def bind_eq_Inr)
  have start: "\<forall>enc \<in> set (snd (st, [] :: Encoding list)). \<forall>j \<in> set (encoding_refs enc). j < length ops"
    by simp
  have "\<forall>enc \<in> set (snd encs). \<forall>j \<in> set (encoding_refs enc). j < length ops"
    using for_each_invariant
      [where P = "\<lambda>s. \<forall>enc \<in> set (snd s). \<forall>j \<in> set (encoding_refs enc). j < length ops",
       OF loop start]
      encoding_step_refs
    by blast
  with ops encodings show ?thesis
    by (auto simp add: form_in_bounds_def form_refs_def list_all_iff)
qed

lemma form_step_in_bounds:
  assumes "form_step nm s e = Inr s'" and "list_all form_in_bounds (snd s)"
  shows "list_all form_in_bounds (snd s')"
proof -
  from assms(1) obtain r where r: "read_InstructionForm nm (fst s) e = Inr r"
    and s': "s' = (fst r, snd s @ [snd r])"
    by (auto simp add: form_step_def bind_eq_Inr)
  from read_InstructionForm_in_bounds [OF r] s' assms(2) show ?thesis by simp
qed

lemma read_Instruction_in_bounds:
  assumes "read_Instruction st e = Inr r"
  shows "list_all form_in_bounds (forms (snd r))"
proof -
  from assms obtain nm fs where
    loop: "for_each (form_step nm) (children e) (st, []) = Inr fs"
    and forms: "forms (snd r) = snd fs"
    by (auto simp add: read_Instruction_def bind_eq_Inr)
  have start: "list_all form_in_bounds (snd (st, [] :: InstructionForm list))" by simp
  have "list_all form_in_bounds (snd fs)"
    using for_each_invariant [where P = "\<lambda>s. list_all form_in_bounds (snd s)", OF loop start]
      form_step_in_bounds
    by blast
  with forms show ?thesis by simp
qed

lemma instruction_step_in_bounds:
  assumes "instruction_step s e = Inr s'" and "references_in_bounds (snd s)"
  shows "references_in_bounds (snd s')"
proof -
  from assms(1) obtain r where r: "read_Instruction (fst s) e = Inr r"
    and s': "s' = (fst r, snd s @ [snd r])"
    by (auto simp add: instruction_step_def bind_eq_Inr)
  from read_Instruction_in_bounds [OF r] s' assms(2) show ?thesis
    by (simp add: references_in_bounds_def)
qed

lemma run_instruction_set_in_bounds:
  assumes "run_instruction_set root = Inr r"
  shows "references_in_bounds (snd r)"
proof -
  from assms have
    loop: "for_each instruction_step (children root) (\<lparr>rex = None, stdout = []\<rparr>, []) = Inr r"
    by (auto simp add: run_instruction_set_def bind_eq_Inr)
  have start: "references_in_bounds (snd (\<lparr>rex = None, stdout = []\<rparr>, [] :: Instruction list))"
    by (simp add: references_in_bounds_def)
  show ?thesis
    using for_each_invariant [where P = "\<lambda>s. references_in_bounds (snd s)", OF loop start]
      instruction_step_in_bounds
    by blast
qed

lemma read_instruction_set_in_bounds:
  "read_instruction_set root = Inr instruction_set \<Longrightarrow> references_in_bounds instruction_set"
  using run_instruction_set_in_bounds
  by (auto simp add: read_instruction_set_def bind_eq_Inr)

subsection \<open>A successful load has read every declaration\<close>

lemma read_Encoding_member:
  assumes "read_Encoding ops st enc = Inr r" and "c \<in> set (children enc)"
  shows "\<exists>st' r'. read_component ops st' c = Inr r'"
proof -
  from for_each_member [OF assms(1) [unfolded read_Encoding_def] assms(2)]
  obtain a b where "component_step ops a c = Inr b" by blast
  then show ?thesis by (auto simp add: component_step_def bind_eq_Inr)
qed

lemma read_InstructionForm_member:
  assumes "read_InstructionForm nm st f = Inr r" and "c \<in> set (form_components f)"
  shows "\<exists>ops st' r'. read_component ops st' c = Inr r'"
proof -
  from assms(2) obtain enc where enc: "enc \<in> set (findall f ''Encodings'' ''Encoding'')"
    and c: "c \<in> set (children enc)"
    by (auto simp add: form_components_def)
  from assms(1) obtain ops encs where
    "for_each (encoding_step ops) (findall f ''Encodings'' ''Encoding'') (st, []) = Inr encs"
    by (auto simp add: read_InstructionForm_def bind_eq_Inr)
  from for_each_member [OF this enc] obtain a b where "encoding_step ops a enc = Inr b" by blast
  then obtain r' where "read_Encoding ops (fst a) enc = Inr r'"
    by (auto simp add: encoding_step_def bind_eq_Inr)
  from read_Encoding_member [OF this c] show ?thesis by blast
qed

lemma read_Instruction_member:
  assumes "read_Instruction st i = Inr r" and "f \<in> set (children i)"
    and "c \<in> set (form_components f)"
  shows "\<exists>ops st' r'. read_component ops st' c = Inr r'"
proof -
  from assms(1) obtain nm fs where "for_each (form_step nm) (children i) (st, []) = Inr fs"
    by (auto simp add: read_Instruction_def bind_eq_Inr)
  from for_each_member [OF this assms(2)] obtain a b where "form_step nm a f = Inr b" by blast
  then obtain r' where "read_InstructionForm nm (fst a) f = Inr r'"
    by (auto simp add: form_step_def bind_eq_Inr)
  from read_InstructionForm_member [OF this assms(3)] show ?thesis .
qed

lemma loaded_component_resolves:
  assumes "read_instruction_set root = Inr instruction_set"
    and "c \<in> set (component_declarations root)"
  shows "\<exists>ops st r. read_component ops st c = Inr r"
proof -
  from assms(2) obtain i f where i: "i \<in> set (children root)" and f: "f \<in> set (children i)"
    and c: "c \<in> set (form_components f)"
    by (auto simp add: component_declarations_def)
  from assms(1) obtain r where
    "for_each instruction_step (children root) (\<lparr>rex = None, stdout = []\<rparr>, []) = Inr r"
    by (auto simp add: read_instruction_set_def run_instruction_set_def bind_eq_Inr)
  from for_each_member [OF this i] obtain a b where "instruction_step a i = Inr b" by blast
  then obtain r' where "read_Instruction (fst a) i = Inr r'"
    by (auto simp add: instruction_step_def bind_eq_Inr)
  from read_Instruction_member [OF this f c] show ?thesis .
qed

lemma read_component_ModRM:
  "tag c = ''ModRM'' \<Longrightarrow> read_component ops st c = Inr r \<Longrightarrow> \<exists>m. read_ModRM ops c = Inr m \<and> r = (st, Some (ModRMC m))"
  by (auto simp add: read_component_def bind_eq_Inr)


lemma read_component_Immediate:
  "tag c = ''Immediate'' \<Longrightarrow> read_component ops st c = Inr r \<Longrightarrow> \<exists>x. read_Immediate ops c = Inr x \<and> r = (st, Some x)"
  by (auto simp add: read_component_def bind_eq_Inr)

lemma read_component_CodeOffset:
  "tag c = ''CodeOffset'' \<Longrightarrow> read_component ops st c = Inr r \<Longrightarrow> \<exists>x. read_CodeOffset ops c = Inr x \<and> r = (st, Some x)"
  by (auto simp add: read_component_def bind_eq_Inr)

lemma read_component_DataOffset:
  "tag c = ''DataOffset'' \<Longrightarrow> read_component ops st c = Inr r \<Longrightarrow> \<exists>x. read_DataOffset ops c = Inr x \<and> r = (st, Some x)"
  by (auto simp add: read_component_def bind_eq_Inr)

lemma has_attr_iff: "has_attr k e \<longleftrightarrow> (\<exists>v. attr e k = Some v)"
  by (simp add: has_attr_def)

lemma read_ModRM_checked:
  assumes "read_ModRM ops c = Inr m"
  shows "(\<forall>s. attr c ''mode'' = Some s \<longrightarrow> py_int 2 s = Inr 3 \<and> mode m = Literal 3)"
    and "attr c ''mode'' = None \<longrightarrow>
           (\<exists>a. attr c ''mode-operand-number'' = Some a \<and> attr c ''rm-operand-number'' = Some a)
           \<and> mode m = OperandRef (rm m)"
    and "\<forall>s. attr c ''reg'' = Some s \<longrightarrow> (\<exists>n. py_int 10 s = Inr n \<and> 0 \<le> n \<and> n \<le> 7 \<and> reg m = Literal n)"
  using assms
  by (auto simp add: read_ModRM_def modrm_mode_def modrm_reg_def bind_eq_Inr py_assert_eq_Inr
        attr_item_eq_Inr has_attr_iff operand_number_eq_Inr split: if_splits)

lemma read_Immediate_size:
  assumes "read_Immediate ops c = Inr x"
  shows "\<exists>s n j. attr c ''size'' = Some s \<and> py_int 10 s = Inr n
           \<and> operand_number ops c ''operand-number'' = Inr j
           \<and> (n = 1 \<and> x = ImmediateByte j \<or> n = 2 \<and> x = ImmediateWord j
              \<or> n = 4 \<and> x = ImmediateDWord j \<or> n = 8 \<and> x = ImmediateQWord j)"
  using assms
  by (auto simp add: read_Immediate_def bind_eq_Inr py_assert_eq_Inr attr_item_eq_Inr
        split: if_splits)

lemma read_CodeOffset_size:
  assumes "read_CodeOffset ops c = Inr x"
  shows "\<exists>s n j. attr c ''size'' = Some s \<and> py_int 10 s = Inr n
           \<and> operand_number ops c ''operand-number'' = Inr j
           \<and> (n = 1 \<and> x = CodeOffset8 j \<or> n = 4 \<and> x = CodeOffset32 j)"
  using assms
  by (auto simp add: read_CodeOffset_def bind_eq_Inr py_assert_eq_Inr attr_item_eq_Inr
        split: if_splits)

lemma read_DataOffset_size:
  assumes "read_DataOffset ops c = Inr x"
  shows "\<exists>s n j. attr c ''size'' = Some s \<and> py_int 10 s = Inr n
           \<and> operand_number ops c ''operand-number'' = Inr j
           \<and> (n = 4 \<and> x = DataOffset32 j \<or> n = 8 \<and> x = DataOffset64 j)"
  using assms
  by (auto simp add: read_DataOffset_def bind_eq_Inr py_assert_eq_Inr attr_item_eq_Inr
        split: if_splits)




subsection \<open>Components with a tag outside the dispatch\<close>

lemma with_stdout_Inl: "with_stdout out (Inl e) = Inl e"
  by (simp add: with_stdout_def)

lemma with_stdout_Inr: "with_stdout out (Inr (s, x)) = Inr (s\<lparr>stdout := out\<rparr>, x)"
  by (simp add: with_stdout_def)

lemma with_stdout_bind:
  "with_stdout out (bind m (\<lambda>v. Inr (st, f v))) = bind m (\<lambda>v. Inr (st\<lparr>stdout := out\<rparr>, f v))"
  by (cases m) (simp_all add: bind_def with_stdout_def)

lemma int_of_rex_stdout: "int_of_rex (st\<lparr>stdout := out\<rparr>) field = int_of_rex st field"
  by (simp add: int_of_rex_def)

lemma read_VEX_stdout: "read_VEX ops (st\<lparr>stdout := out\<rparr>) c = read_VEX ops st c"
  by (simp add: read_VEX_def vex_R_def vex_B_def int_of_rex_stdout cong: if_cong)

lemma read_component_unknown:
  "unknown_tag c \<Longrightarrow>
     read_component ops st c = Inr (st\<lparr>stdout := stdout st @ [unknown_message c]\<rparr>, None)"
  by (simp add: unknown_tag_def known_tag_def read_component_def unknown_message_def)

lemma read_component_known_stdout:
  assumes "known_tag c"
  shows "read_component ops (st\<lparr>stdout := out\<rparr>) c = with_stdout out (read_component ops st c)"
proof -
  have rex: "\<And>r. with_stdout out (bind (read_REX ops c) (\<lambda>r. Inr (st\<lparr>rex := Some r\<rparr>, Some (REXC r))))
      = bind (read_REX ops c) (\<lambda>r. Inr (st\<lparr>stdout := out, rex := Some r\<rparr>, Some (REXC r)))"
    by (cases "read_REX ops c") (simp_all add: bind_def with_stdout_def)
  from assms show ?thesis
    by (auto simp add: known_tag_def read_component_def with_stdout_bind read_VEX_stdout rex)
qed

lemma read_component_known_keeps_stdout:
  assumes "known_tag c" and "read_component ops st c = Inr r"
  shows "stdout (fst r) = stdout st"
  using assms
  by (auto simp add: known_tag_def read_component_def bind_eq_Inr split: if_splits)

lemma component_step_known_stdout:
  assumes "known_tag c"
  shows "component_step ops (st\<lparr>stdout := out\<rparr>, enc) c = with_stdout out (component_step ops (st, enc) c)"
proof (cases "read_component ops st c")
  case (Inl e)
  then show ?thesis
    using read_component_known_stdout [OF assms, where ops = ops and st = st and out = out]
    by (simp add: component_step_def bind_def with_stdout_def)
next
  case (Inr r)
  then show ?thesis
    using read_component_known_stdout [OF assms, where ops = ops and st = st and out = out]
    by (simp add: component_step_def bind_def with_stdout_def)
qed

lemma for_each_known_stdout:
  assumes "\<forall>c \<in> set cs. known_tag c"
  shows "for_each (component_step ops) cs (st\<lparr>stdout := out\<rparr>, enc)
         = with_stdout out (for_each (component_step ops) cs (st, enc))"
  using assms
proof (induction cs arbitrary: st enc)
  case Nil
  then show ?case by (simp add: with_stdout_def)
next
  case (Cons c cs)
  then have known: "known_tag c" and rest: "\<forall>c \<in> set cs. known_tag c" by simp_all
  show ?case
  proof (cases "component_step ops (st, enc) c")
    case (Inl e)
    then show ?thesis
      using component_step_known_stdout [OF known, where ops = ops and st = st and out = out and enc = enc]
      by (simp add: with_stdout_def)
  next
    case (Inr s)
    obtain st1 enc1 where s: "s = (st1, enc1)" by (cases s)
    with Inr have "component_step ops (st\<lparr>stdout := out\<rparr>, enc) c = Inr (st1\<lparr>stdout := out\<rparr>, enc1)"
      using component_step_known_stdout [OF known, where ops = ops and st = st and out = out and enc = enc]
      by (simp add: with_stdout_def)
    with Inr s show ?thesis using Cons.IH [OF rest, where st = st1 and enc = enc1] by simp
  qed
qed

lemma with_stdout_twice: "with_stdout a (with_stdout b r) = with_stdout a r"
  by (cases r) (simp_all add: with_stdout_def)

lemma for_each_skips_unknown:
  "for_each (component_step ops) cs (st, enc)
   = with_stdout (stdout st @ map unknown_message (filter unknown_tag cs))
       (for_each (component_step ops) (filter known_tag cs) (st, enc))"
proof (induction cs arbitrary: st enc)
  case Nil
  then show ?case by (simp add: with_stdout_def)
next
  case (Cons c cs)
  show ?case
  proof (cases "known_tag c")
    case True
    then have u: "\<not> unknown_tag c" by (simp add: unknown_tag_def)
    show ?thesis
    proof (cases "component_step ops (st, enc) c")
      case (Inl e)
      with True u show ?thesis by (simp add: with_stdout_def)
    next
      case (Inr s)
      obtain st1 enc1 where s: "s = (st1, enc1)" by (cases s)
      from Inr s have "stdout st1 = stdout st"
        using read_component_known_keeps_stdout [OF True, where ops = ops and st = st]
        by (auto simp add: component_step_def bind_eq_Inr)
      with True u Inr s show ?thesis using Cons.IH [where st = st1 and enc = enc1] by simp
    qed
  next
    case False
    then have u: "unknown_tag c" by (simp add: unknown_tag_def)
    have step: "component_step ops (st, enc) c
                = Inr (st\<lparr>stdout := stdout st @ [unknown_message c]\<rparr>, enc)"
      by (simp add: component_step_def read_component_unknown [OF u] bind_def append_component_def)
    have k: "\<forall>x \<in> set (filter known_tag cs). known_tag x" by simp
    show ?thesis
      using False u step
        Cons.IH [where st = "st\<lparr>stdout := stdout st @ [unknown_message c]\<rparr>" and enc = enc]
        for_each_known_stdout [OF k, where ops = ops and st = st and enc = enc
          and out = "stdout st @ [unknown_message c]"]
      by (simp add: with_stdout_twice)
  qed
qed

lemma component_step_length:
  assumes "known_tag c" and "component_step ops s c = Inr s'"
  shows "length (components (snd s')) = Suc (length (components (snd s)))"
  using assms
  by (auto simp add: known_tag_def component_step_def read_component_def bind_eq_Inr
        append_component_def split: if_splits)

lemma for_each_known_length:
  assumes "\<forall>c \<in> set cs. known_tag c" and "for_each (component_step ops) cs s = Inr s'"
  shows "length (components (snd s')) = length (components (snd s)) + length cs"
  using assms
proof (induction cs arbitrary: s)
  case Nil
  then show ?case by simp
next
  case (Cons c cs)
  then obtain t where step: "component_step ops s c = Inr t"
    and rest: "for_each (component_step ops) cs t = Inr s'"
    by (auto split: sum.splits)
  from Cons.prems(1) have "known_tag c" and "\<forall>c \<in> set cs. known_tag c" by simp_all
  with component_step_length [OF _ step] Cons.IH [OF _ rest] show ?case by simp
qed

subsection \<open>Display names of a form\<close>

lemma attr_without_key:
  "attr (Element t (filter (\<lambda>p. fst p \<noteq> k) a) cs) k' = (if k' = k then None else attr (Element t a cs) k')"
  by (induction a) (auto simp add: attr_def)

lemma findall_attrib: "findall (Element t a cs) x y = findall (Element t b cs) x y"
  by (simp add: findall_def)

lemma read_InstructionForm_names:
  assumes "read_InstructionForm nm st f = Inr r"
  shows "gas_name (snd r) = attr f ''gas-name''" and "attr f ''gas-name'' \<noteq> None"
    and "go_name (snd r) = attr f ''go-name''"
  using assms
  by (auto simp add: read_InstructionForm_def bind_eq_Inr attr_item_eq_Inr)

lemma read_InstructionForm_no_gas_name:
  "attr f ''gas-name'' = None \<Longrightarrow> read_InstructionForm nm st f = Inl KeyError"
  by (simp add: read_InstructionForm_def attr_item_def bind_def)

lemma read_InstructionForm_without_go_name:
  "read_InstructionForm nm st (Element t (filter (\<lambda>p. fst p \<noteq> ''go-name'') a) cs)
   = bind (read_InstructionForm nm st (Element t a cs)) (\<lambda>r. Inr (fst r, (snd r)\<lparr>go_name := None\<rparr>))"
proof -
  let ?f = "Element t (filter (\<lambda>p. fst p \<noteq> ''go-name'') a) cs"
  let ?g = "Element t a cs"
  have attrs: "attr ?f ''gas-name'' = attr ?g ''gas-name''" "attr ?f ''go-name'' = None"
    "attr ?f ''mmx-mode'' = attr ?g ''mmx-mode''" "attr ?f ''xmm-mode'' = attr ?g ''xmm-mode''"
    by (simp_all add: attr_without_key)
  have finds: "\<And>x y. findall ?f x y = findall ?g x y"
    by (rule findall_attrib)
  show ?thesis
    unfolding read_InstructionForm_def form_operands_def attr_item_def attrs finds
    by (simp add: bind_def split: sum.splits option.splits)
qed

lemma loaded_form_resolves:
  assumes "read_instruction_set root = Inr instruction_set"
    and "i \<in> set (children root)" and "f \<in> set (children i)"
  shows "\<exists>nm st r. read_InstructionForm nm st f = Inr r"
proof -
  from assms(1) obtain r where
    "for_each instruction_step (children root) (\<lparr>rex = None, stdout = []\<rparr>, []) = Inr r"
    by (auto simp add: read_instruction_set_def run_instruction_set_def bind_eq_Inr)
  from for_each_member [OF this assms(2)] obtain a b where "instruction_step a i = Inr b" by blast
  then obtain r' where "read_Instruction (fst a) i = Inr r'"
    by (auto simp add: instruction_step_def bind_eq_Inr)
  then obtain nm fs where "for_each (form_step nm) (children i) (fst a, []) = Inr fs"
    by (auto simp add: read_Instruction_def bind_eq_Inr)
  from for_each_member [OF this assms(3)] obtain a' b' where "form_step nm a' f = Inr b'" by blast
  then show ?thesis by (auto simp add: form_step_def bind_eq_Inr)
qed

subsection \<open>Operand positions read by a successful load\<close>

lemma rex_R_link:
  "rex_R ops c = Inr s \<Longrightarrow> \<not> has_attr ''R'' c \<Longrightarrow> \<exists>j. operand_number ops c ''R-operand-number'' = Inr j"
  by (auto simp add: rex_R_def bind_eq_Inr)

lemma vex_R_link:
  "vex_R ops st c = Inr s \<Longrightarrow> \<not> has_attr ''R'' c \<Longrightarrow> \<exists>j. operand_number ops c ''R-operand-number'' = Inr j"
  by (auto simp add: vex_R_def bind_eq_Inr)

lemma rex_B_link:
  assumes "rex_B ops c = Inr s" and "\<not> has_attr ''B'' c"
  shows "has_attr ''B-operand-number'' c \<longrightarrow> (\<exists>j. operand_number ops c ''B-operand-number'' = Inr j)"
    and "\<not> has_attr ''B-operand-number'' c \<longrightarrow> (\<exists>j. operand_number ops c ''BX-operand-number'' = Inr j)"
  using assms by (auto simp add: rex_B_def bind_eq_Inr split: if_splits)

lemma vex_B_link:
  assumes "vex_B ops st c = Inr s" and "\<not> has_attr ''B'' c"
  shows "has_attr ''B-operand-number'' c \<longrightarrow> (\<exists>j. operand_number ops c ''B-operand-number'' = Inr j)"
    and "\<not> has_attr ''B-operand-number'' c \<longrightarrow> (\<exists>j. operand_number ops c ''BX-operand-number'' = Inr j)"
  using assms by (auto simp add: vex_B_def bind_eq_Inr split: if_splits)

lemma field_X_link:
  "field_X ops c = Inr s \<Longrightarrow> \<not> has_attr ''X'' c \<Longrightarrow> \<exists>j. operand_number ops c ''BX-operand-number'' = Inr j"
  by (auto simp add: field_X_def bind_eq_Inr)

lemma vex_vvvv_link:
  "vex_vvvv ops c = Inr s \<Longrightarrow> \<not> has_attr ''vvvv'' c \<Longrightarrow> \<exists>j. operand_number ops c ''vvvv-operand-number'' = Inr j"
  by (auto simp add: vex_vvvv_def bind_eq_Inr)

lemma read_REX_links:
  assumes "read_REX ops c = Inr r" and "tag c = ''REX''" and "k \<in> set (operand_links c)"
  shows "\<exists>j. operand_number ops c k = Inr j"
proof -
  from assms(1) obtain R B X where "rex_R ops c = Inr R" "rex_B ops c = Inr B" "field_X ops c = Inr X"
    by (auto simp add: read_REX_def bind_eq_Inr)
  with assms(2,3) show ?thesis
    using rex_R_link [of ops c R] rex_B_link [of ops c B] field_X_link [of ops c X]
    by (auto simp add: operand_links_def split: if_splits)
qed

lemma read_VEX_links:
  assumes "read_VEX ops st c = Inr v" and "tag c = ''VEX''" and "k \<in> set (operand_links c)"
  shows "\<exists>j. operand_number ops c k = Inr j"
proof -
  from assms(1) obtain R B X V where "vex_R ops st c = Inr R" "vex_B ops st c = Inr B"
    "field_X ops c = Inr X" "vex_vvvv ops c = Inr V"
    by (auto simp add: read_VEX_def bind_eq_Inr)
  with assms(2,3) show ?thesis
    using vex_R_link [of ops st c R] vex_B_link [of ops st c B] field_X_link [of ops c X]
      vex_vvvv_link [of ops c V]
    by (auto simp add: operand_links_def split: if_splits)
qed

lemma read_Opcode_links:
  assumes "read_Opcode ops c = Inr opc" and "tag c = ''Opcode''" and "k \<in> set (operand_links c)"
  shows "\<exists>j. operand_number ops c k = Inr j"
  using assms
  by (auto simp add: read_Opcode_def operand_links_def bind_eq_Inr split: if_splits)

lemma read_ModRM_links:
  assumes "read_ModRM ops c = Inr m" and "tag c = ''ModRM''" and "k \<in> set (operand_links c)"
  shows "\<exists>j. operand_number ops c k = Inr j"
  using assms
  by (auto simp add: read_ModRM_def modrm_mode_def modrm_reg_def operand_links_def bind_eq_Inr
        split: if_splits)

lemma read_component_links:
  assumes "read_component ops st c = Inr r" and "k \<in> set (operand_links c)"
  shows "\<exists>j. operand_number ops c k = Inr j"
proof -
  from assms(2) consider (rex) "tag c = ''REX''" | (vex) "tag c = ''VEX''"
    | (opcode) "tag c = ''Opcode''" | (modrm) "tag c = ''ModRM''"
    | (imm) "tag c = ''Immediate''" | (code) "tag c = ''CodeOffset''" | (data) "tag c = ''DataOffset''"
    by (auto simp add: operand_links_def split: if_splits)
  then show ?thesis
  proof cases
    case rex
    with assms(1) obtain x where "read_REX ops c = Inr x"
      by (auto simp add: read_component_def bind_eq_Inr)
    from read_REX_links [OF this rex assms(2)] show ?thesis .
  next
    case vex
    with assms(1) obtain x where "read_VEX ops st c = Inr x"
      by (auto simp add: read_component_def bind_eq_Inr)
    from read_VEX_links [OF this vex assms(2)] show ?thesis .
  next
    case opcode
    with assms(1) obtain x where "read_Opcode ops c = Inr x"
      by (auto simp add: read_component_def bind_eq_Inr)
    from read_Opcode_links [OF this opcode assms(2)] show ?thesis .
  next
    case modrm
    with assms(1) obtain x where "read_ModRM ops c = Inr x"
      by (auto simp add: read_component_def bind_eq_Inr)
    from read_ModRM_links [OF this modrm assms(2)] show ?thesis .
  next
    case imm
    with assms(2) have k: "k = ''operand-number''" by (simp add: operand_links_def)
    from read_component_Immediate [OF imm assms(1)] obtain x where "read_Immediate ops c = Inr x"
      by blast
    from read_Immediate_size [OF this] k show ?thesis by blast
  next
    case code
    with assms(2) have k: "k = ''operand-number''" by (simp add: operand_links_def)
    from read_component_CodeOffset [OF code assms(1)] obtain x where "read_CodeOffset ops c = Inr x"
      by blast
    from read_CodeOffset_size [OF this] k show ?thesis by blast
  next
    case data
    with assms(2) have k: "k = ''operand-number''" by (simp add: operand_links_def)
    from read_component_DataOffset [OF data assms(1)] obtain x where "read_DataOffset ops c = Inr x"
      by blast
    from read_DataOffset_size [OF this] k show ?thesis by blast
  qed
qed

lemma read_InstructionForm_member_ops:
  assumes "read_InstructionForm nm st f = Inr r" and "c \<in> set (form_components f)"
  shows "\<exists>ops st' r'. form_operands f = Inr ops \<and> read_component ops st' c = Inr r'"
proof -
  from assms(2) obtain enc where enc: "enc \<in> set (findall f ''Encodings'' ''Encoding'')"
    and c: "c \<in> set (children enc)"
    by (auto simp add: form_components_def)
  from assms(1) obtain ops encs where ops: "form_operands f = Inr ops" and
    "for_each (encoding_step ops) (findall f ''Encodings'' ''Encoding'') (st, []) = Inr encs"
    by (auto simp add: read_InstructionForm_def bind_eq_Inr)
  from for_each_member [OF this(2) enc] obtain a b where "encoding_step ops a enc = Inr b" by blast
  then obtain r' where "read_Encoding ops (fst a) enc = Inr r'"
    by (auto simp add: encoding_step_def bind_eq_Inr)
  from read_Encoding_member [OF this c] ops show ?thesis by blast
qed

lemma loaded_links_resolve:
  assumes "read_instruction_set root = Inr instruction_set"
    and "i \<in> set (children root)" and "f \<in> set (children i)"
    and "c \<in> set (form_components f)" and "k \<in> set (operand_links c)"
  shows "\<exists>ops s n. form_operands f = Inr ops \<and> attr c k = Some s \<and> py_int 10 s = Inr n
           \<and> - int (length ops) \<le> n \<and> n < int (length ops)"
proof -
  from loaded_form_resolves [OF assms(1-3)] obtain nm st r
    where "read_InstructionForm nm st f = Inr r" by blast
  from read_InstructionForm_member_ops [OF this assms(4)] obtain ops st' r'
    where ops: "form_operands f = Inr ops" and "read_component ops st' c = Inr r'" by blast
  from read_component_links [OF this(2) assms(5)] obtain j
    where "operand_number ops c k = Inr j" by blast
  with ops show ?thesis by (auto simp add: operand_number_eq_Inr subscript_eq_Inr)
qed

subsection \<open>Loading without the unrecognized declarations\<close>

lemma for_each_map_sim:
  assumes "N s = N t"
    and "\<And>a b x. x \<in> set xs \<Longrightarrow> N a = N b \<Longrightarrow>
           map_sum id N (body1 a (g x)) = map_sum id N (body2 b x)"
  shows "map_sum id N (for_each body1 (map g xs) s) = map_sum id N (for_each body2 xs t)"
  using assms
proof (induction xs arbitrary: s t)
  case Nil
  then show ?case by simp
next
  case (Cons x xs)
  have step: "map_sum id N (body1 s (g x)) = map_sum id N (body2 t x)"
    by (rule Cons.prems(2)) (simp_all add: Cons.prems(1))
  have rest: "\<And>a b y. y \<in> set xs \<Longrightarrow> N a = N b \<Longrightarrow>
           map_sum id N (body1 a (g y)) = map_sum id N (body2 b y)"
    by (rule Cons.prems(2)) simp_all
  show ?case
  proof (cases "body1 s (g x)")
    case (Inl e)
    with step have "body2 t x = Inl e" by (cases "body2 t x") simp_all
    with Inl show ?thesis by simp
  next
    case (Inr s')
    with step obtain t' where t': "body2 t x = Inr t'" and "N s' = N t'"
      by (cases "body2 t x") simp_all
    from Cons.IH [OF this(2) rest] Inr t' show ?thesis by simp
  qed
qed

lemma state_stdout: "rex (s :: state) = rex s' \<Longrightarrow> s' = s\<lparr>stdout := stdout s'\<rparr>"
  by (cases s; cases s') simp

lemma map_sum_with_stdout:
  "map_sum id (apfst rex) (with_stdout out r) = map_sum id (apfst rex) r"
  by (cases r) (simp_all add: with_stdout_def apfst_def map_prod_def split: prod.splits)

lemma read_Encoding_strip:
  assumes "rex s = rex s'"
  shows "map_sum id (apfst rex) (read_Encoding ops s (strip_encoding enc))
         = map_sum id (apfst rex) (read_Encoding ops s' enc)"
proof -
  let ?ks = "filter known_tag (children enc)"
  let ?e = "\<lparr>components = []\<rparr>"
  have k: "\<forall>c \<in> set ?ks. known_tag c" by simp
  have "for_each (component_step ops) ?ks (s', ?e)
        = for_each (component_step ops) ?ks (s\<lparr>stdout := stdout s'\<rparr>, ?e)"
    using state_stdout [OF assms] by simp
  also have "\<dots> = with_stdout (stdout s') (for_each (component_step ops) ?ks (s, ?e))"
    by (rule for_each_known_stdout [OF k])
  finally have "read_Encoding ops s' enc
      = with_stdout (stdout s' @ map unknown_message (filter unknown_tag (children enc)))
          (for_each (component_step ops) ?ks (s, ?e))"
    by (simp add: read_Encoding_def for_each_skips_unknown [of ops "children enc"] with_stdout_twice)
  then show ?thesis
    by (simp add: map_sum_with_stdout read_Encoding_def strip_encoding_def)
qed

lemma encoding_step_strip:
  assumes "apfst rex a = apfst rex b"
  shows "map_sum id (apfst rex) (encoding_step ops a (strip_encoding e))
         = map_sum id (apfst rex) (encoding_step ops b e)"
proof -
  from assms have r: "rex (fst a) = rex (fst b)" and acc: "snd a = snd b"
    by (cases a; cases b; simp)+
  from read_Encoding_strip [OF r, of ops e] acc show ?thesis
    by (cases "read_Encoding ops (fst a) (strip_encoding e)"; cases "read_Encoding ops (fst b) e")
       (auto simp add: encoding_step_def bind_def)
qed

lemma tag_strip_encodings: "tag (strip_encodings g) = tag g"
  by (simp add: strip_encodings_def)

lemma findall_strip_form_Encoding:
  "findall (strip_form f) ''Encodings'' ''Encoding''
   = map strip_encoding (findall f ''Encodings'' ''Encoding'')"
proof -
  have inner: "filter (\<lambda>d. tag d = ''Encoding'') (children (strip_encodings c))
               = map strip_encoding (filter (\<lambda>d. tag d = ''Encoding'') (children c))"
    if "tag c = ''Encodings''" for c
    using that by (simp add: strip_encodings_def filter_map comp_def strip_encoding_def cong: map_cong)
  have "findall (Element t a (map strip_encodings cs)) ''Encodings'' ''Encoding''
        = map strip_encoding (findall (Element t a cs) ''Encodings'' ''Encoding'')" for t a cs
    by (induction cs) (simp_all add: findall_def tag_strip_encodings inner)
  from this [of "tag f" "attrib f" "children f"] show ?thesis
    by (simp add: strip_form_def findall_def)
qed

lemma findall_strip_form_other:
  assumes "x \<noteq> ''Encodings''"
  shows "findall (strip_form f) x y = findall f x y"
proof -
  have "findall (Element t a (map strip_encodings cs)) x y = findall (Element t a cs) x y" for t a cs
    using assms by (induction cs) (auto simp add: findall_def strip_encodings_def)
  from this [of "tag f" "attrib f" "children f"] show ?thesis
    by (simp add: strip_form_def findall_def)
qed

lemma attr_strip_form: "attr (strip_form f) k = attr f k"
  by (simp add: attr_def strip_form_def)

lemma form_operands_strip: "form_operands (strip_form f) = form_operands f"
  by (simp add: form_operands_def findall_strip_form_other)

lemma read_InstructionForm_strip:
  assumes "rex s = rex s'"
  shows "map_sum id (apfst rex) (read_InstructionForm nm s (strip_form f))
         = map_sum id (apfst rex) (read_InstructionForm nm s' f)"
proof -
  have loop: "map_sum id (apfst rex)
                (for_each (encoding_step ops) (findall (strip_form f) ''Encodings'' ''Encoding'') (s, []))
              = map_sum id (apfst rex)
                (for_each (encoding_step ops) (findall f ''Encodings'' ''Encoding'') (s', []))"
    for ops
    unfolding findall_strip_form_Encoding
    by (rule for_each_map_sim) (simp_all add: assms encoding_step_strip)
  show ?thesis
  proof (cases "attr_item f ''gas-name''")
    case (Inl e)
    then show ?thesis
      by (simp add: read_InstructionForm_def attr_item_def attr_strip_form bind_def)
  next
    case gas: (Inr g)
    show ?thesis
    proof (cases "form_operands f")
      case (Inl e)
      with gas show ?thesis
        by (simp add: read_InstructionForm_def attr_item_def attr_strip_form form_operands_strip
              bind_def)
    next
      case ops: (Inr ops)
      show ?thesis
      proof (cases "for_each implicit_step (findall f ''Operands'' ''ImplicitOperands'') ({}, {})")
        case (Inl e)
        with gas ops show ?thesis
          by (simp add: read_InstructionForm_def attr_item_def attr_strip_form form_operands_strip
                findall_strip_form_other bind_def)
      next
        case imp: (Inr imp)
        show ?thesis
        proof (cases "for_each isa_step (findall f ''ISA'' ''Extension'') []")
          case (Inl e)
          with gas ops imp show ?thesis
            by (simp add: read_InstructionForm_def attr_item_def attr_strip_form
                  form_operands_strip findall_strip_form_other bind_def)
        next
          case exts: (Inr exts)
          from loop [of ops] gas ops imp exts show ?thesis
            by (cases "for_each (encoding_step ops) (findall (strip_form f) ''Encodings'' ''Encoding'') (s, [])";
                cases "for_each (encoding_step ops) (findall f ''Encodings'' ''Encoding'') (s', [])")
               (auto simp add: read_InstructionForm_def attr_item_def attr_strip_form
                  form_operands_strip findall_strip_form_other bind_def)
        qed
      qed
    qed
  qed
qed

lemma form_step_strip:
  assumes "apfst rex a = apfst rex b"
  shows "map_sum id (apfst rex) (form_step nm a (strip_form f))
         = map_sum id (apfst rex) (form_step nm b f)"
proof -
  from assms have r: "rex (fst a) = rex (fst b)" and acc: "snd a = snd b"
    by (cases a; cases b; simp)+
  from read_InstructionForm_strip [OF r, of nm f] acc show ?thesis
    by (cases "read_InstructionForm nm (fst a) (strip_form f)";
        cases "read_InstructionForm nm (fst b) f")
       (auto simp add: form_step_def bind_def)
qed

lemma read_Instruction_strip:
  assumes "rex s = rex s'"
  shows "map_sum id (apfst rex) (read_Instruction s (strip_instruction i))
         = map_sum id (apfst rex) (read_Instruction s' i)"
proof -
  have loop: "map_sum id (apfst rex) (for_each (form_step nm) (map strip_form (children i)) (s, []))
              = map_sum id (apfst rex) (for_each (form_step nm) (children i) (s', []))" for nm
    by (rule for_each_map_sim) (simp_all add: assms form_step_strip)
  have sel: "tag (strip_instruction i) = tag i" "attr (strip_instruction i) k = attr i k"
    "children (strip_instruction i) = map strip_form (children i)" for k
    by (simp_all add: strip_instruction_def attr_def)
  show ?thesis
  proof (cases "tag i = ''Instruction''")
    case False
    then show ?thesis by (simp add: read_Instruction_def sel py_assert_def bind_def)
  next
    case True
    show ?thesis
    proof (cases "attr i ''name''")
      case None
      with True show ?thesis
        by (simp add: read_Instruction_def sel py_assert_def attr_item_def bind_def)
    next
      case nm: (Some nm)
      show ?thesis
      proof (cases "attr i ''summary''")
        case None
        with True nm show ?thesis
          by (simp add: read_Instruction_def sel py_assert_def attr_item_def bind_def)
      next
        case (Some sm)
        with loop [of nm] True nm show ?thesis
          by (cases "for_each (form_step nm) (map strip_form (children i)) (s, [])";
              cases "for_each (form_step nm) (children i) (s', [])")
             (auto simp add: read_Instruction_def sel py_assert_def attr_item_def bind_def)
      qed
    qed
  qed
qed

lemma instruction_step_strip:
  assumes "apfst rex a = apfst rex b"
  shows "map_sum id (apfst rex) (instruction_step a (strip_instruction i))
         = map_sum id (apfst rex) (instruction_step b i)"
proof -
  from assms have r: "rex (fst a) = rex (fst b)" and acc: "snd a = snd b"
    by (cases a; cases b; simp)+
  from read_Instruction_strip [OF r, of i] acc show ?thesis
    by (cases "read_Instruction (fst a) (strip_instruction i)"; cases "read_Instruction (fst b) i")
       (auto simp add: instruction_step_def bind_def)
qed

lemma run_instruction_set_strip:
  "map_sum id (apfst rex) (run_instruction_set (strip_document root))
   = map_sum id (apfst rex) (run_instruction_set root)"
proof -
  let ?s = "(\<lparr>rex = None, stdout = []\<rparr>, [] :: Instruction list)"
  have loop: "map_sum id (apfst rex)
                (for_each instruction_step (map strip_instruction (children root)) ?s)
              = map_sum id (apfst rex) (for_each instruction_step (children root) ?s)"
    by (rule for_each_map_sim) (simp_all add: instruction_step_strip)
  have sel: "tag (strip_document root) = tag root" "attr (strip_document root) k = attr root k"
    "children (strip_document root) = map strip_instruction (children root)" for k
    by (simp_all add: strip_document_def attr_def)
  show ?thesis
  proof (cases "tag root = ''InstructionSet'' \<and> attr root ''name'' = Some ''x86-64''")
    case True
    with loop show ?thesis
      by (simp add: run_instruction_set_def sel py_assert_def attr_item_def bind_def)
  next
    case False
    then show ?thesis
      by (auto simp add: run_instruction_set_def sel py_assert_def attr_item_def bind_def
            split: option.splits)
  qed
qed

lemma read_instruction_set_strip:
  "read_instruction_set (strip_document root) = read_instruction_set root"
  using run_instruction_set_strip [of root]
  by (cases "run_instruction_set (strip_document root)"; cases "run_instruction_set root")
     (auto simp add: read_instruction_set_def bind_def)

subsection \<open>Components selected by a size, read alone\<close>

lemma operand_number_has_attr: "operand_number ops c k = Inr j \<Longrightarrow> has_attr k c"
  by (auto simp add: operand_number_eq_Inr has_attr_iff)

lemma read_Immediate_variant:
  assumes "attr c ''size'' = Some s" and "py_int 10 s = Inr n"
    and "operand_number ops c ''operand-number'' = Inr j"
  shows "read_Immediate ops c =
           (if n = 1 then Inr (ImmediateByte j) else if n = 2 then Inr (ImmediateWord j)
            else if n = 4 then Inr (ImmediateDWord j) else if n = 8 then Inr (ImmediateQWord j)
            else Inl AssertionError)"
  using assms operand_number_has_attr [OF assms(3)]
  by (simp add: read_Immediate_def has_attr_iff attr_item_def bind_def py_assert_def)

lemma read_CodeOffset_variant:
  assumes "attr c ''size'' = Some s" and "py_int 10 s = Inr n"
    and "operand_number ops c ''operand-number'' = Inr j"
  shows "read_CodeOffset ops c =
           (if n = 1 then Inr (CodeOffset8 j) else if n = 4 then Inr (CodeOffset32 j)
            else Inl AssertionError)"
  using assms
  by (simp add: read_CodeOffset_def attr_item_def bind_def py_assert_def)

lemma read_DataOffset_variant:
  assumes "attr c ''size'' = Some s" and "py_int 10 s = Inr n"
    and "operand_number ops c ''operand-number'' = Inr j"
  shows "read_DataOffset ops c =
           (if n = 4 then Inr (DataOffset32 j) else if n = 8 then Inr (DataOffset64 j)
            else Inl AssertionError)"
  using assms
  by (simp add: read_DataOffset_def attr_item_def bind_def py_assert_def)

lemma read_component_sized:
  "tag c = ''Immediate'' \<Longrightarrow>
     read_component ops st c = bind (read_Immediate ops c) (\<lambda>x. Inr (st, Some x))"
  "tag c = ''CodeOffset'' \<Longrightarrow>
     read_component ops st c = bind (read_CodeOffset ops c) (\<lambda>x. Inr (st, Some x))"
  "tag c = ''DataOffset'' \<Longrightarrow>
     read_component ops st c = bind (read_DataOffset ops c) (\<lambda>x. Inr (st, Some x))"
  by (simp_all add: read_component_def)

lemma for_each_all_Operand:
  "\<forall>d \<in> set xs. tag d = ''Operand'' \<Longrightarrow> filter (\<lambda>d. tag d = ''Operand'') xs = xs"
  "\<forall>d \<in> set xs. tag d = ''Operand'' \<Longrightarrow> filter (\<lambda>d. tag d = ''ImplicitOperands'') xs = []"
  by (induction xs) auto

lemma single_form_load:
  assumes "\<forall>d \<in> set xml_operands. tag d = ''Operand''"
    and "for_each operand_step xml_operands [] = Inr form_ops"
    and "read_component form_ops \<lparr>rex = None, stdout = []\<rparr> c = Inr (st', Some x)"
  shows "read_instruction_set (single_form_document xml_operands [c])
         = Inr (single_form_model form_ops [x])"
proof -
  let ?f = "Element ''InstructionForm'' [(''gas-name'', ''add'')]
             [Element ''Operands'' [] xml_operands,
              Element ''Encodings'' [] [Element ''Encoding'' [] [c]]]"
  have finds: "findall ?f ''Operands'' ''Operand'' = xml_operands"
    "findall ?f ''Operands'' ''ImplicitOperands'' = []"
    "findall ?f ''ISA'' ''Extension'' = []"
    "findall ?f ''Encodings'' ''Encoding'' = [Element ''Encoding'' [] [c]]"
    using for_each_all_Operand [OF assms(1)] by (simp_all add: findall_def)
  have enc: "read_Encoding form_ops \<lparr>rex = None, stdout = []\<rparr> (Element ''Encoding'' [] [c])
             = Inr (st', \<lparr>components = [x]\<rparr>)"
    using assms(3) by (simp add: read_Encoding_def component_step_def bind_def append_component_def)
  have form: "read_InstructionForm ''ADD'' \<lparr>rex = None, stdout = []\<rparr> ?f
        = Inr (st', \<lparr>InstructionForm.name = ''ADD'', gas_name = Some ''add'', go_name = None,
            mmx_mode = None, xmm_mode = None, operands = form_ops, implicit_inputs = {},
            implicit_outputs = {}, isa_extensions = [],
            encodings = [\<lparr>components = [x]\<rparr>]\<rparr>)"
    unfolding read_InstructionForm_def form_operands_def finds
    using assms(2) enc
    by (simp add: attr_item_def attr_def bind_def encoding_step_def)
  show ?thesis
    unfolding single_form_document_def read_instruction_set_def run_instruction_set_def
    using form
    by (simp add: py_assert_def attr_item_def attr_def bind_def instruction_step_def
          read_Instruction_def form_step_def single_form_model_def)
qed

subsection \<open>VEX bits given as literals\<close>

text \<open>
  C1: a \<^verbatim>\<open>VEX\<close> declaration whose \<^verbatim>\<open>R\<close> (or \<^verbatim>\<open>B\<close>) attribute is the literal
  \<^verbatim>\<open>"0"\<close> or \<^verbatim>\<open>"1"\<close> should get that literal, whatever \<^verbatim>\<open>REX\<close> components
  exist. The source converts \<^verbatim>\<open>rex.R\<close> and \<^verbatim>\<open>rex.B\<close> instead of
  \<^verbatim>\<open>vex.R\<close> and \<^verbatim>\<open>vex.B\<close>: with no \<^verbatim>\<open>REX\<close> component read before, the load of
  a document whose only component is a \<^verbatim>\<open>VEX\<close> with \<^verbatim>\<open>R="1"\<close> raises
  \<^verbatim>\<open>UnboundLocalError\<close>; after a \<^verbatim>\<open>REX\<close> with \<^verbatim>\<open>R="0"\<close> and \<^verbatim>\<open>B="0"\<close>
  the same \<^verbatim>\<open>VEX\<close> declaration is loaded with \<^verbatim>\<open>R = 0\<close> and \<^verbatim>\<open>B = 0\<close>.
\<close>

theorem vex_literal_read_from_rex:
  "read_instruction_set vex_without_rex_document = Inl UnboundLocalError
   \<and> read_instruction_set vex_after_rex_document =
       Inr [\<lparr>Instruction.name = ''ADD'', summary = Some ''Add'',
             forms =
               [\<lparr>InstructionForm.name = ''ADD'', gas_name = Some ''add'', go_name = None,
                  mmx_mode = None, xmm_mode = None, operands = [], implicit_inputs = {},
                  implicit_outputs = {}, isa_extensions = [],
                  encodings =
                    [\<lparr>components =
                        [REXC \<lparr>REX.is_mandatory = False, W = Literal 0, R = Literal 0,
                               X = Literal 0, B = Literal 0\<rparr>,
                         VEXC \<lparr>mmmmm = 1, pp = 1, W = Literal 0, L = Literal 0,
                               R = Literal 0, X = Ignored, B = Literal 0,
                               vvvv = Literal 15\<rparr>]\<rparr>]\<rparr>]\<rparr>]"
  by code_simp

subsection \<open>Opcode bytes and addends\<close>

text \<open>
  C2: every loaded \<^verbatim>\<open>Opcode\<close> should have a byte in \<open>[0, 255]\<close> and, when it has an
  addend, an addend operand of a register type. The \<^verbatim>\<open>Opcode\<close> branch checks neither:
  the declaration \<^verbatim>\<open>byte="1FF"\<close> with an addend that names an \<^verbatim>\<open>imm8\<close> operand
  is loaded with byte 511 and that operand as addend.
\<close>

theorem opcode_byte_unchecked:
  "read_instruction_set wide_opcode_document =
     Inr [\<lparr>Instruction.name = ''ADD'', summary = Some ''Add'',
           forms =
             [\<lparr>InstructionForm.name = ''ADD'', gas_name = Some ''add'', go_name = None,
                mmx_mode = None, xmm_mode = None,
                operands = [\<lparr>type = ''imm8'', is_input = True, is_output = False\<rparr>],
                implicit_inputs = {}, implicit_outputs = {}, isa_extensions = [],
                encodings =
                  [\<lparr>components = [OpcodeC \<lparr>Opcode.byte = 511, addend = Some 0\<rparr>]\<rparr>]\<rparr>]\<rparr>]
   \<and> \<not> is_register \<lparr>type = ''imm8'', is_input = True, is_output = False\<rparr>"
  by code_simp

subsection \<open>VEX leading-byte and prefix classes\<close>

text \<open>
  C3: every loaded \<^verbatim>\<open>VEX\<close> should have \<^verbatim>\<open>mmmmm\<close> among 1, 2, 3 and \<^verbatim>\<open>pp\<close>
  among 0, 1, 2, 3, other declarations being rejected. The \<^verbatim>\<open>VEX\<close> branch converts both
  attributes in base 2 and checks neither: \<^verbatim>\<open>m-mmmm="00100"\<close> and \<^verbatim>\<open>pp="111"\<close>
  are loaded as 4 and 7.
\<close>

theorem vex_classes_unchecked:
  "read_instruction_set odd_vex_document =
     Inr [\<lparr>Instruction.name = ''ADD'', summary = Some ''Add'',
           forms =
             [\<lparr>InstructionForm.name = ''ADD'', gas_name = Some ''add'', go_name = None,
                mmx_mode = None, xmm_mode = None, operands = [], implicit_inputs = {},
                implicit_outputs = {}, isa_extensions = [],
                encodings =
                  [\<lparr>components =
                      [VEXC \<lparr>mmmmm = 4, pp = 7, W = Literal 0, L = Literal 0, R = Ignored,
                             X = Ignored, B = Ignored, vvvv = Literal 15\<rparr>]\<rparr>]\<rparr>]\<rparr>]"
  by code_simp

subsection \<open>Operand positions\<close>

text \<open>
  C4, as amended: a field resolved through an attribute naming an operand position is
  resolved exactly when the attribute is present, converts to an integer \<open>i\<close> and
  \<open>-n \<le> i < n\<close>, where \<open>n\<close> is the number of operands of the form; every other index
  raises. An index \<open>i < 0\<close> in that range is accepted and names position \<open>n + i\<close>.
  In a document that loads, every attribute through which a component declaration
  names an operand position (\<^const>\<open>operand_links\<close>) therefore holds an index in that
  range for the operands of its form, and every operand reference of the loaded
  instruction set lies within the operand list of its own form.
\<close>

theorem operand_references_in_bounds:
  "(operand_number ops e k = Inr j \<longleftrightarrow>
      (\<exists>s i. attr e k = Some s \<and> py_int 10 s = Inr i
             \<and> - int (length ops) \<le> i \<and> i < int (length ops)
             \<and> j = nat (if i < 0 then int (length ops) + i else i)))
   \<and> (read_instruction_set root = Inr instruction_set \<longrightarrow>
        references_in_bounds instruction_set
        \<and> (\<forall>xml_instruction \<in> set (children root).
            \<forall>xml_form \<in> set (children xml_instruction).
            \<forall>c \<in> set (form_components xml_form).
            \<forall>link \<in> set (operand_links c).
              \<exists>form_ops s n. form_operands xml_form = Inr form_ops
                 \<and> attr c link = Some s \<and> py_int 10 s = Inr n
                 \<and> - int (length form_ops) \<le> n \<and> n < int (length form_ops)))"
proof -
  have "\<forall>xml_instruction \<in> set (children root).
        \<forall>xml_form \<in> set (children xml_instruction).
        \<forall>c \<in> set (form_components xml_form).
        \<forall>link \<in> set (operand_links c).
          \<exists>form_ops s n. form_operands xml_form = Inr form_ops
             \<and> attr c link = Some s \<and> py_int 10 s = Inr n
             \<and> - int (length form_ops) \<le> n \<and> n < int (length form_ops)"
    if "read_instruction_set root = Inr instruction_set"
    using loaded_links_resolve [OF that] by blast
  then show ?thesis
    by (simp add: operand_number_eq_Inr subscript_eq_Inr read_instruction_set_in_bounds)
qed

text \<open>
  The statement at two operands, the combined link of \<^const>\<open>rex_combined\<close> and the
  document \<^const>\<open>rex_document\<close>.
\<close>

theorem operand_references_in_bounds_witness:
  "operand_number
     [\<lparr>type = ''r32'', is_input = True, is_output = True\<rparr>,
      \<lparr>type = ''m32'', is_input = True, is_output = False\<rparr>]
     rex_combined ''BX-operand-number'' = Inr 1
   \<and> references_in_bounds
       [\<lparr>Instruction.name = ''ADD'', summary = Some ''Add'',
         forms =
           [\<lparr>InstructionForm.name = ''ADD'', gas_name = Some ''add'', go_name = None,
              mmx_mode = None, xmm_mode = None,
              operands = [\<lparr>type = ''r32'', is_input = True, is_output = True\<rparr>,
                          \<lparr>type = ''m32'', is_input = True, is_output = False\<rparr>],
              implicit_inputs = {}, implicit_outputs = {}, isa_extensions = [],
              encodings =
                [\<lparr>components =
                    [REXC \<lparr>REX.is_mandatory = True, W = Literal 1, R = OperandRef 0,
                           X = OperandRef 1, B = OperandRef 1\<rparr>]\<rparr>]\<rparr>]\<rparr>]
   \<and> operand_links rex_combined = [''R-operand-number'', ''BX-operand-number'', ''BX-operand-number'']
   \<and> (\<exists>form_ops s n. form_operands (hd (children (hd (children rex_document)))) = Inr form_ops
         \<and> attr rex_combined ''BX-operand-number'' = Some s \<and> py_int 10 s = Inr n
         \<and> - int (length form_ops) \<le> n \<and> n < int (length form_ops))"
proof -
  let ?ops = "[\<lparr>type = ''r32'', is_input = True, is_output = True\<rparr>,
               \<lparr>type = ''m32'', is_input = True, is_output = False\<rparr>]"
  let ?model = "[\<lparr>Instruction.name = ''ADD'', summary = Some ''Add'',
         forms =
           [\<lparr>InstructionForm.name = ''ADD'', gas_name = Some ''add'', go_name = None,
              mmx_mode = None, xmm_mode = None,
              operands = ?ops,
              implicit_inputs = {}, implicit_outputs = {}, isa_extensions = [],
              encodings =
                [\<lparr>components =
                    [REXC \<lparr>REX.is_mandatory = True, W = Literal 1, R = OperandRef 0,
                           X = OperandRef 1, B = OperandRef 1\<rparr>]\<rparr>]\<rparr>]\<rparr>]"
  let ?i = "hd (children rex_document)"
  let ?f = "hd (children ?i)"
  have a: "attr rex_combined ''BX-operand-number'' = Some ''1''" by code_simp
  have n: "py_int 10 ''1'' = Inr 1" by code_simp
  have load: "read_instruction_set rex_document = Inr ?model" by code_simp
  have i: "?i \<in> set (children rex_document)" by code_simp
  have f: "?f \<in> set (children ?i)" by code_simp
  have c: "rex_combined \<in> set (form_components ?f)" by code_simp
  have links: "operand_links rex_combined
      = [''R-operand-number'', ''BX-operand-number'', ''BX-operand-number'']"
    by code_simp
  then have link: "''BX-operand-number'' \<in> set (operand_links rex_combined)" by simp
  note inst = operand_references_in_bounds
         [where ops = ?ops and e = rex_combined and k = "''BX-operand-number''" and j = 1
            and root = rex_document and instruction_set = ?model]
  from inst a n have first: "operand_number ?ops rex_combined ''BX-operand-number'' = Inr 1"
    by auto
  from inst load have second: "references_in_bounds ?model" by blast
  from inst load i f c link
  have third: "\<exists>form_ops s n. form_operands ?f = Inr form_ops
         \<and> attr rex_combined ''BX-operand-number'' = Some s \<and> py_int 10 s = Inr n
         \<and> - int (length form_ops) \<le> n \<and> n < int (length form_ops)"
    by blast
  from first second links third show ?thesis by blast
qed

text \<open>
  The index \<^verbatim>\<open>"-1"\<close> is no position of a one-operand form, and the load succeeds: the
  addend is the operand at position 0.
\<close>

theorem negative_index_accepted:
  "py_int 10 ''-1'' = Inr (- 1)
   \<and> read_instruction_set negative_index_document =
       Inr [\<lparr>Instruction.name = ''ADD'', summary = Some ''Add'',
             forms =
               [\<lparr>InstructionForm.name = ''ADD'', gas_name = Some ''add'', go_name = None,
                  mmx_mode = None, xmm_mode = None,
                  operands = [\<lparr>type = ''r64'', is_input = True, is_output = False\<rparr>],
                  implicit_inputs = {}, implicit_outputs = {}, isa_extensions = [],
                  encodings =
                    [\<lparr>components = [OpcodeC \<lparr>Opcode.byte = 80, addend = Some 0\<rparr>]\<rparr>]\<rparr>]\<rparr>]"
  by code_simp

subsection \<open>ModRM declarations\<close>

text \<open>
  C5: in a document that loads, every \<^verbatim>\<open>ModRM\<close> declaration satisfies: a literal
  \<^verbatim>\<open>mode\<close> converts (in base 2) to \<open>0b11\<close>; without a literal mode the attributes
  \<^verbatim>\<open>mode-operand-number\<close> and \<^verbatim>\<open>rm-operand-number\<close> are both present and equal,
  so that the mode of the component is the operand of its \<^verbatim>\<open>rm\<close> field; a literal
  \<^verbatim>\<open>reg\<close> lies in \<open>[0, 7]\<close>. Any violation therefore aborts the load.
\<close>

theorem modrm_declaration_checked:
  assumes "read_instruction_set root = Inr instruction_set"
    and "c \<in> set (component_declarations root)" and "tag c = ''ModRM''"
  shows "(\<forall>s. attr c ''mode'' = Some s \<longrightarrow> py_int 2 s = Inr 3)
       \<and> (attr c ''mode'' = None \<longrightarrow>
            (\<exists>a. attr c ''mode-operand-number'' = Some a \<and> attr c ''rm-operand-number'' = Some a))
       \<and> (\<forall>s. attr c ''reg'' = Some s \<longrightarrow> (\<exists>n. py_int 10 s = Inr n \<and> 0 \<le> n \<and> n \<le> 7))
       \<and> (\<forall>ops m. read_ModRM ops c = Inr m \<longrightarrow> mode m = Literal 3 \<or> mode m = OperandRef (rm m))"
proof -
  from loaded_component_resolves [OF assms(1,2)] obtain ops st r
    where "read_component ops st c = Inr r" by blast
  with read_component_ModRM [OF assms(3)] obtain m where m: "read_ModRM ops c = Inr m" by blast
  have "\<forall>ops m. read_ModRM ops c = Inr m \<longrightarrow> mode m = Literal 3 \<or> mode m = OperandRef (rm m)"
  proof (intro allI impI)
    fix ops' m' assume "read_ModRM ops' c = Inr m'"
    from read_ModRM_checked(1,2) [OF this] show "mode m' = Literal 3 \<or> mode m' = OperandRef (rm m')"
      by (cases "attr c ''mode''") auto
  qed
  with read_ModRM_checked [OF m] show ?thesis by blast
qed

text \<open>
  The statement at the two declarations of \<^const>\<open>modrm_document\<close>, one with a literal
  mode and one linked to an operand.
\<close>

theorem modrm_declaration_checked_witness:
  "modrm_literal \<in> set (component_declarations modrm_document)
   \<and> modrm_linked \<in> set (component_declarations modrm_document)
   \<and> py_int 2 ''11'' = Inr 3
   \<and> py_int 10 ''5'' = Inr 5
   \<and> attr modrm_linked ''mode-operand-number'' = attr modrm_linked ''rm-operand-number''
   \<and> read_instruction_set modrm_document =
       Inr [\<lparr>Instruction.name = ''ADD'', summary = Some ''Add'',
             forms =
               [\<lparr>InstructionForm.name = ''ADD'', gas_name = Some ''add'', go_name = None,
                  mmx_mode = None, xmm_mode = None,
                  operands = [\<lparr>type = ''r32'', is_input = True, is_output = True\<rparr>,
                              \<lparr>type = ''m32'', is_input = True, is_output = False\<rparr>],
                  implicit_inputs = {}, implicit_outputs = {}, isa_extensions = [],
                  encodings =
                    [\<lparr>components =
                        [ModRMC \<lparr>mode = OperandRef 1, rm = 1, reg = OperandRef 0\<rparr>,
                         ModRMC \<lparr>mode = Literal 3, rm = 0, reg = Literal 5\<rparr>]\<rparr>]\<rparr>]\<rparr>]"
proof -
  let ?model = "[\<lparr>Instruction.name = ''ADD'', summary = Some ''Add'',
             forms =
               [\<lparr>InstructionForm.name = ''ADD'', gas_name = Some ''add'', go_name = None,
                  mmx_mode = None, xmm_mode = None,
                  operands = [\<lparr>type = ''r32'', is_input = True, is_output = True\<rparr>,
                              \<lparr>type = ''m32'', is_input = True, is_output = False\<rparr>],
                  implicit_inputs = {}, implicit_outputs = {}, isa_extensions = [],
                  encodings =
                    [\<lparr>components =
                        [ModRMC \<lparr>mode = OperandRef 1, rm = 1, reg = OperandRef 0\<rparr>,
                         ModRMC \<lparr>mode = Literal 3, rm = 0, reg = Literal 5\<rparr>]\<rparr>]\<rparr>]\<rparr>]"
  have load: "read_instruction_set modrm_document = Inr ?model" by code_simp
  have lit: "modrm_literal \<in> set (component_declarations modrm_document)" by code_simp
  have lnk: "modrm_linked \<in> set (component_declarations modrm_document)" by code_simp
  have tags: "tag modrm_literal = ''ModRM''" "tag modrm_linked = ''ModRM''" by code_simp+
  have attrs: "attr modrm_literal ''mode'' = Some ''11''" "attr modrm_literal ''reg'' = Some ''5''"
    "attr modrm_linked ''mode'' = None"
    by code_simp+
  have five: "py_int 10 ''5'' = Inr 5" by code_simp
  from modrm_declaration_checked [OF load lit tags(1)] attrs(1)
  have mode: "py_int 2 ''11'' = Inr 3" by blast
  from modrm_declaration_checked [OF load lnk tags(2)] attrs(3)
  have same: "attr modrm_linked ''mode-operand-number'' = attr modrm_linked ''rm-operand-number''"
    by auto
  from load lit lnk mode five same show ?thesis by blast
qed

subsection \<open>Components selected by a size\<close>

text \<open>
  C6: the dispatch on the \<^verbatim>\<open>size\<close> attribute is exhaustive and exclusive. Whenever the
  size converts to an integer and the operand named by \<^verbatim>\<open>operand-number\<close> resolves,
  an \<^verbatim>\<open>Immediate\<close> declaration yields exactly \<^verbatim>\<open>ImmediateByte\<close>,
  \<^verbatim>\<open>ImmediateWord\<close>, \<^verbatim>\<open>ImmediateDWord\<close>, \<^verbatim>\<open>ImmediateQWord\<close> for the sizes
  1, 2, 4, 8, a \<^verbatim>\<open>CodeOffset\<close> declaration yields \<^verbatim>\<open>CodeOffset8\<close>,
  \<^verbatim>\<open>CodeOffset32\<close> for 1, 4, a \<^verbatim>\<open>DataOffset\<close> declaration yields
  \<^verbatim>\<open>DataOffset32\<close>, \<^verbatim>\<open>DataOffset64\<close> for 4, 8, and every other size raises
  \<^verbatim>\<open>AssertionError\<close>. Conversely a component is only ever produced this way, so in a
  document that loads every such size lies in its permitted set; and a document of one
  form and one such declaration loads to exactly the component the declaration yields.
\<close>

theorem width_dispatch_exclusive:
  "(read_instruction_set root = Inr instruction_set \<and> c \<in> set (component_declarations root) \<longrightarrow>
      (tag c = ''Immediate'' \<longrightarrow>
         (\<exists>s n. attr c ''size'' = Some s \<and> py_int 10 s = Inr n \<and> n \<in> {1, 2, 4, 8}))
      \<and> (tag c = ''CodeOffset'' \<longrightarrow>
         (\<exists>s n. attr c ''size'' = Some s \<and> py_int 10 s = Inr n \<and> n \<in> {1, 4}))
      \<and> (tag c = ''DataOffset'' \<longrightarrow>
         (\<exists>s n. attr c ''size'' = Some s \<and> py_int 10 s = Inr n \<and> n \<in> {4, 8})))
   \<and> (attr c ''size'' = Some s \<and> py_int 10 s = Inr n
        \<and> operand_number ops c ''operand-number'' = Inr j \<longrightarrow>
      (tag c = ''Immediate'' \<longrightarrow>
         read_component ops st c =
           (if n = 1 then Inr (st, Some (ImmediateByte j))
            else if n = 2 then Inr (st, Some (ImmediateWord j))
            else if n = 4 then Inr (st, Some (ImmediateDWord j))
            else if n = 8 then Inr (st, Some (ImmediateQWord j))
            else Inl AssertionError))
      \<and> (tag c = ''CodeOffset'' \<longrightarrow>
         read_component ops st c =
           (if n = 1 then Inr (st, Some (CodeOffset8 j))
            else if n = 4 then Inr (st, Some (CodeOffset32 j))
            else Inl AssertionError))
      \<and> (tag c = ''DataOffset'' \<longrightarrow>
         read_component ops st c =
           (if n = 4 then Inr (st, Some (DataOffset32 j))
            else if n = 8 then Inr (st, Some (DataOffset64 j))
            else Inl AssertionError)))
   \<and> (\<forall>ops st st' y. tag c = ''Immediate'' \<longrightarrow> read_component ops st c = Inr (st', y) \<longrightarrow>
         (\<exists>s n j. attr c ''size'' = Some s \<and> py_int 10 s = Inr n
            \<and> operand_number ops c ''operand-number'' = Inr j
            \<and> (n = 1 \<and> y = Some (ImmediateByte j) \<or> n = 2 \<and> y = Some (ImmediateWord j)
               \<or> n = 4 \<and> y = Some (ImmediateDWord j) \<or> n = 8 \<and> y = Some (ImmediateQWord j))))
   \<and> (\<forall>ops st st' y. tag c = ''CodeOffset'' \<longrightarrow> read_component ops st c = Inr (st', y) \<longrightarrow>
         (\<exists>s n j. attr c ''size'' = Some s \<and> py_int 10 s = Inr n
            \<and> operand_number ops c ''operand-number'' = Inr j
            \<and> (n = 1 \<and> y = Some (CodeOffset8 j) \<or> n = 4 \<and> y = Some (CodeOffset32 j))))
   \<and> (\<forall>ops st st' y. tag c = ''DataOffset'' \<longrightarrow> read_component ops st c = Inr (st', y) \<longrightarrow>
         (\<exists>s n j. attr c ''size'' = Some s \<and> py_int 10 s = Inr n
            \<and> operand_number ops c ''operand-number'' = Inr j
            \<and> (n = 4 \<and> y = Some (DataOffset32 j) \<or> n = 8 \<and> y = Some (DataOffset64 j))))
   \<and> ((\<forall>d \<in> set xml_operands. tag d = ''Operand'')
        \<and> for_each operand_step xml_operands [] = Inr form_ops
        \<and> read_component form_ops \<lparr>rex = None, stdout = []\<rparr> c = Inr (st', Some x) \<longrightarrow>
      read_instruction_set (single_form_document xml_operands [c])
        = Inr (single_form_model form_ops [x]))"
proof -
  have imm: "\<exists>s n j. attr c ''size'' = Some s \<and> py_int 10 s = Inr n
               \<and> operand_number ops c ''operand-number'' = Inr j
               \<and> (n = 1 \<and> y = Some (ImmediateByte j) \<or> n = 2 \<and> y = Some (ImmediateWord j)
                  \<or> n = 4 \<and> y = Some (ImmediateDWord j) \<or> n = 8 \<and> y = Some (ImmediateQWord j))"
    if "tag c = ''Immediate''" "read_component ops st c = Inr (st', y)" for ops st st' y
  proof -
    from read_component_Immediate [OF that] obtain x where
      "read_Immediate ops c = Inr x" and "y = Some x" by auto
    with read_Immediate_size [of ops c x] show ?thesis by auto
  qed
  have code: "\<exists>s n j. attr c ''size'' = Some s \<and> py_int 10 s = Inr n
               \<and> operand_number ops c ''operand-number'' = Inr j
               \<and> (n = 1 \<and> y = Some (CodeOffset8 j) \<or> n = 4 \<and> y = Some (CodeOffset32 j))"
    if "tag c = ''CodeOffset''" "read_component ops st c = Inr (st', y)" for ops st st' y
  proof -
    from read_component_CodeOffset [OF that] obtain x where
      "read_CodeOffset ops c = Inr x" and "y = Some x" by auto
    with read_CodeOffset_size [of ops c x] show ?thesis by auto
  qed
  have data: "\<exists>s n j. attr c ''size'' = Some s \<and> py_int 10 s = Inr n
               \<and> operand_number ops c ''operand-number'' = Inr j
               \<and> (n = 4 \<and> y = Some (DataOffset32 j) \<or> n = 8 \<and> y = Some (DataOffset64 j))"
    if "tag c = ''DataOffset''" "read_component ops st c = Inr (st', y)" for ops st st' y
  proof -
    from read_component_DataOffset [OF that] obtain x where
      "read_DataOffset ops c = Inr x" and "y = Some x" by auto
    with read_DataOffset_size [of ops c x] show ?thesis by auto
  qed
  have abort: "(tag c = ''Immediate'' \<longrightarrow>
         (\<exists>s n. attr c ''size'' = Some s \<and> py_int 10 s = Inr n \<and> n \<in> {1, 2, 4, 8}))
      \<and> (tag c = ''CodeOffset'' \<longrightarrow>
         (\<exists>s n. attr c ''size'' = Some s \<and> py_int 10 s = Inr n \<and> n \<in> {1, 4}))
      \<and> (tag c = ''DataOffset'' \<longrightarrow>
         (\<exists>s n. attr c ''size'' = Some s \<and> py_int 10 s = Inr n \<and> n \<in> {4, 8}))"
    if "read_instruction_set root = Inr instruction_set" "c \<in> set (component_declarations root)"
  proof -
    from loaded_component_resolves [OF that] obtain ops st st' y
      where r: "read_component ops st c = Inr (st', y)" by auto
    show ?thesis using imm [OF _ r] code [OF _ r] data [OF _ r] by auto
  qed
  have yields: "(tag c = ''Immediate'' \<longrightarrow>
         read_component ops st c =
           (if n = 1 then Inr (st, Some (ImmediateByte j))
            else if n = 2 then Inr (st, Some (ImmediateWord j))
            else if n = 4 then Inr (st, Some (ImmediateDWord j))
            else if n = 8 then Inr (st, Some (ImmediateQWord j))
            else Inl AssertionError))
      \<and> (tag c = ''CodeOffset'' \<longrightarrow>
         read_component ops st c =
           (if n = 1 then Inr (st, Some (CodeOffset8 j))
            else if n = 4 then Inr (st, Some (CodeOffset32 j))
            else Inl AssertionError))
      \<and> (tag c = ''DataOffset'' \<longrightarrow>
         read_component ops st c =
           (if n = 4 then Inr (st, Some (DataOffset32 j))
            else if n = 8 then Inr (st, Some (DataOffset64 j))
            else Inl AssertionError))"
    if "attr c ''size'' = Some s" "py_int 10 s = Inr n"
      "operand_number ops c ''operand-number'' = Inr j"
    using read_Immediate_variant [OF that] read_CodeOffset_variant [OF that]
      read_DataOffset_variant [OF that]
    by (simp add: read_component_sized bind_def)
  have whole: "read_instruction_set (single_form_document xml_operands [c])
        = Inr (single_form_model form_ops [x])"
    if "\<forall>d \<in> set xml_operands. tag d = ''Operand''"
      "for_each operand_step xml_operands [] = Inr form_ops"
      "read_component form_ops \<lparr>rex = None, stdout = []\<rparr> c = Inr (st', Some x)"
    using single_form_load [OF that] .
  from abort yields whole imm code data show ?thesis by blast
qed

text \<open>
  The statement at each of the eight permitted sizes, at one rejected size per kind, and
  at the declarations of \<^const>\<open>sized_document\<close>.
\<close>

theorem width_dispatch_exclusive_witness:
  "read_instruction_set (single_form_document two_operands [sized ''Immediate'' ''1''])
       = Inr (single_form_model 
       [\<lparr>type = ''r32'', is_input = True, is_output = True\<rparr>,
      \<lparr>type = ''m32'', is_input = True, is_output = False\<rparr>]
       [ImmediateByte 1])
   \<and> read_instruction_set (single_form_document two_operands [sized ''Immediate'' ''2''])
       = Inr (single_form_model 
       [\<lparr>type = ''r32'', is_input = True, is_output = True\<rparr>,
      \<lparr>type = ''m32'', is_input = True, is_output = False\<rparr>]
       [ImmediateWord 1])
   \<and> read_instruction_set (single_form_document two_operands [sized ''Immediate'' ''4''])
       = Inr (single_form_model 
       [\<lparr>type = ''r32'', is_input = True, is_output = True\<rparr>,
      \<lparr>type = ''m32'', is_input = True, is_output = False\<rparr>]
       [ImmediateDWord 1])
   \<and> read_instruction_set (single_form_document two_operands [sized ''Immediate'' ''8''])
       = Inr (single_form_model 
       [\<lparr>type = ''r32'', is_input = True, is_output = True\<rparr>,
      \<lparr>type = ''m32'', is_input = True, is_output = False\<rparr>]
       [ImmediateQWord 1])
   \<and> read_instruction_set (single_form_document two_operands [sized ''CodeOffset'' ''1''])
       = Inr (single_form_model 
       [\<lparr>type = ''r32'', is_input = True, is_output = True\<rparr>,
      \<lparr>type = ''m32'', is_input = True, is_output = False\<rparr>]
       [CodeOffset8 1])
   \<and> read_instruction_set (single_form_document two_operands [sized ''CodeOffset'' ''4''])
       = Inr (single_form_model 
       [\<lparr>type = ''r32'', is_input = True, is_output = True\<rparr>,
      \<lparr>type = ''m32'', is_input = True, is_output = False\<rparr>]
       [CodeOffset32 1])
   \<and> read_instruction_set (single_form_document two_operands [sized ''DataOffset'' ''4''])
       = Inr (single_form_model 
       [\<lparr>type = ''r32'', is_input = True, is_output = True\<rparr>,
      \<lparr>type = ''m32'', is_input = True, is_output = False\<rparr>]
       [DataOffset32 1])
   \<and> read_instruction_set (single_form_document two_operands [sized ''DataOffset'' ''8''])
       = Inr (single_form_model 
       [\<lparr>type = ''r32'', is_input = True, is_output = True\<rparr>,
      \<lparr>type = ''m32'', is_input = True, is_output = False\<rparr>]
       [DataOffset64 1])
   \<and> read_component 
       [\<lparr>type = ''r32'', is_input = True, is_output = True\<rparr>,
      \<lparr>type = ''m32'', is_input = True, is_output = False\<rparr>]
       \<lparr>rex = None, stdout = []\<rparr> (sized ''Immediate'' ''3'') = Inl AssertionError
   \<and> read_component 
       [\<lparr>type = ''r32'', is_input = True, is_output = True\<rparr>,
      \<lparr>type = ''m32'', is_input = True, is_output = False\<rparr>]
       \<lparr>rex = None, stdout = []\<rparr> (sized ''CodeOffset'' ''2'') = Inl AssertionError
   \<and> read_component 
       [\<lparr>type = ''r32'', is_input = True, is_output = True\<rparr>,
      \<lparr>type = ''m32'', is_input = True, is_output = False\<rparr>]
       \<lparr>rex = None, stdout = []\<rparr> (sized ''DataOffset'' ''1'') = Inl AssertionError
   \<and> read_instruction_set sized_document =
       Inr (single_form_model 
       [\<lparr>type = ''r32'', is_input = True, is_output = True\<rparr>,
      \<lparr>type = ''m32'', is_input = True, is_output = False\<rparr>]
      
         [ImmediateByte 1, ImmediateWord 1, ImmediateDWord 1, ImmediateQWord 1,
          CodeOffset8 1, CodeOffset32 1, DataOffset32 1, DataOffset64 1])
   \<and> (\<exists>s n. attr immediate_byte ''size'' = Some s \<and> py_int 10 s = Inr n \<and> n \<in> {1, 2, 4, 8})
   \<and> (\<exists>s n. attr code_offset_dword ''size'' = Some s \<and> py_int 10 s = Inr n \<and> n \<in> {1, 4})
   \<and> (\<exists>s n. attr data_offset_qword ''size'' = Some s \<and> py_int 10 s = Inr n \<and> n \<in> {4, 8})"
proof -
  let ?ops = "[\<lparr>type = ''r32'', is_input = True, is_output = True\<rparr>,
      \<lparr>type = ''m32'', is_input = True, is_output = False\<rparr>]"
  let ?st = "\<lparr>rex = None, stdout = []\<rparr>"
  have tags: "\<forall>d \<in> set two_operands. tag d = ''Operand''" by code_simp
  have operands: "for_each operand_step two_operands [] = Inr ?ops" by code_simp
  have j: "operand_number ?ops (sized t w) ''operand-number'' = Inr 1" for t w
    by (simp add: operand_number_def sized_def attr_item_def attr_def bind_def subscript_def)
       code_simp
  have a: "attr (sized t w) ''size'' = Some w" "tag (sized t w) = t" for t w
    by (simp_all add: sized_def attr_def)
  have n: "py_int 10 ''1'' = Inr 1" "py_int 10 ''2'' = Inr 2" "py_int 10 ''3'' = Inr 3"
    "py_int 10 ''4'' = Inr 4" "py_int 10 ''8'' = Inr 8"
    by code_simp+
  note inst0 = width_dispatch_exclusive
    [where c = "sized ''Immediate'' ''1''" and s = "''1''" and n = 1 and ops = ?ops and j = 1
       and st = ?st and xml_operands = two_operands and form_ops = ?ops and st' = ?st
       and x = "ImmediateByte 1"]
  from inst0 a n j have c0: "read_component ?ops ?st (sized ''Immediate'' ''1'') = Inr (?st, Some (ImmediateByte 1))"
    by simp
  from inst0 tags operands c0 have l0: "read_instruction_set (single_form_document two_operands [sized ''Immediate'' ''1'']) = Inr (single_form_model ?ops [ImmediateByte 1])"
    by blast
  note inst1 = width_dispatch_exclusive
    [where c = "sized ''Immediate'' ''2''" and s = "''2''" and n = 2 and ops = ?ops and j = 1
       and st = ?st and xml_operands = two_operands and form_ops = ?ops and st' = ?st
       and x = "ImmediateWord 1"]
  from inst1 a n j have c1: "read_component ?ops ?st (sized ''Immediate'' ''2'') = Inr (?st, Some (ImmediateWord 1))"
    by simp
  from inst1 tags operands c1 have l1: "read_instruction_set (single_form_document two_operands [sized ''Immediate'' ''2'']) = Inr (single_form_model ?ops [ImmediateWord 1])"
    by blast
  note inst2 = width_dispatch_exclusive
    [where c = "sized ''Immediate'' ''4''" and s = "''4''" and n = 4 and ops = ?ops and j = 1
       and st = ?st and xml_operands = two_operands and form_ops = ?ops and st' = ?st
       and x = "ImmediateDWord 1"]
  from inst2 a n j have c2: "read_component ?ops ?st (sized ''Immediate'' ''4'') = Inr (?st, Some (ImmediateDWord 1))"
    by simp
  from inst2 tags operands c2 have l2: "read_instruction_set (single_form_document two_operands [sized ''Immediate'' ''4'']) = Inr (single_form_model ?ops [ImmediateDWord 1])"
    by blast
  note inst3 = width_dispatch_exclusive
    [where c = "sized ''Immediate'' ''8''" and s = "''8''" and n = 8 and ops = ?ops and j = 1
       and st = ?st and xml_operands = two_operands and form_ops = ?ops and st' = ?st
       and x = "ImmediateQWord 1"]
  from inst3 a n j have c3: "read_component ?ops ?st (sized ''Immediate'' ''8'') = Inr (?st, Some (ImmediateQWord 1))"
    by simp
  from inst3 tags operands c3 have l3: "read_instruction_set (single_form_document two_operands [sized ''Immediate'' ''8'']) = Inr (single_form_model ?ops [ImmediateQWord 1])"
    by blast
  note inst4 = width_dispatch_exclusive
    [where c = "sized ''CodeOffset'' ''1''" and s = "''1''" and n = 1 and ops = ?ops and j = 1
       and st = ?st and xml_operands = two_operands and form_ops = ?ops and st' = ?st
       and x = "CodeOffset8 1"]
  from inst4 a n j have c4: "read_component ?ops ?st (sized ''CodeOffset'' ''1'') = Inr (?st, Some (CodeOffset8 1))"
    by simp
  from inst4 tags operands c4 have l4: "read_instruction_set (single_form_document two_operands [sized ''CodeOffset'' ''1'']) = Inr (single_form_model ?ops [CodeOffset8 1])"
    by blast
  note inst5 = width_dispatch_exclusive
    [where c = "sized ''CodeOffset'' ''4''" and s = "''4''" and n = 4 and ops = ?ops and j = 1
       and st = ?st and xml_operands = two_operands and form_ops = ?ops and st' = ?st
       and x = "CodeOffset32 1"]
  from inst5 a n j have c5: "read_component ?ops ?st (sized ''CodeOffset'' ''4'') = Inr (?st, Some (CodeOffset32 1))"
    by simp
  from inst5 tags operands c5 have l5: "read_instruction_set (single_form_document two_operands [sized ''CodeOffset'' ''4'']) = Inr (single_form_model ?ops [CodeOffset32 1])"
    by blast
  note inst6 = width_dispatch_exclusive
    [where c = "sized ''DataOffset'' ''4''" and s = "''4''" and n = 4 and ops = ?ops and j = 1
       and st = ?st and xml_operands = two_operands and form_ops = ?ops and st' = ?st
       and x = "DataOffset32 1"]
  from inst6 a n j have c6: "read_component ?ops ?st (sized ''DataOffset'' ''4'') = Inr (?st, Some (DataOffset32 1))"
    by simp
  from inst6 tags operands c6 have l6: "read_instruction_set (single_form_document two_operands [sized ''DataOffset'' ''4'']) = Inr (single_form_model ?ops [DataOffset32 1])"
    by blast
  note inst7 = width_dispatch_exclusive
    [where c = "sized ''DataOffset'' ''8''" and s = "''8''" and n = 8 and ops = ?ops and j = 1
       and st = ?st and xml_operands = two_operands and form_ops = ?ops and st' = ?st
       and x = "DataOffset64 1"]
  from inst7 a n j have c7: "read_component ?ops ?st (sized ''DataOffset'' ''8'') = Inr (?st, Some (DataOffset64 1))"
    by simp
  from inst7 tags operands c7 have l7: "read_instruction_set (single_form_document two_operands [sized ''DataOffset'' ''8'']) = Inr (single_form_model ?ops [DataOffset64 1])"
    by blast
  from width_dispatch_exclusive
    [where c = "sized ''Immediate'' ''3''" and s = "''3''" and n = 3 and ops = ?ops and j = 1
       and st = ?st] a n j
  have r0: "read_component ?ops ?st (sized ''Immediate'' ''3'') = Inl AssertionError"
    by simp
  from width_dispatch_exclusive
    [where c = "sized ''CodeOffset'' ''2''" and s = "''2''" and n = 2 and ops = ?ops and j = 1
       and st = ?st] a n j
  have r1: "read_component ?ops ?st (sized ''CodeOffset'' ''2'') = Inl AssertionError"
    by simp
  from width_dispatch_exclusive
    [where c = "sized ''DataOffset'' ''1''" and s = "''1''" and n = 1 and ops = ?ops and j = 1
       and st = ?st] a n j
  have r2: "read_component ?ops ?st (sized ''DataOffset'' ''1'') = Inl AssertionError"
    by simp
  have load: "read_instruction_set sized_document =
       Inr (single_form_model ?ops
         [ImmediateByte 1, ImmediateWord 1, ImmediateDWord 1, ImmediateQWord 1,
          CodeOffset8 1, CodeOffset32 1, DataOffset32 1, DataOffset64 1])"
    by code_simp
  have mem: "immediate_byte \<in> set (component_declarations sized_document)"
    "code_offset_dword \<in> set (component_declarations sized_document)"
    "data_offset_qword \<in> set (component_declarations sized_document)"
    by code_simp+
  have kinds: "tag immediate_byte = ''Immediate''" "tag code_offset_dword = ''CodeOffset''"
    "tag data_offset_qword = ''DataOffset''"
    by code_simp+
  from width_dispatch_exclusive [where root = sized_document and c = immediate_byte] load mem(1) kinds(1)
  have e1: "\<exists>s n. attr immediate_byte ''size'' = Some s \<and> py_int 10 s = Inr n \<and> n \<in> {1, 2, 4, 8}"
    by blast
  from width_dispatch_exclusive [where root = sized_document and c = code_offset_dword] load mem(2) kinds(2)
  have e2: "\<exists>s n. attr code_offset_dword ''size'' = Some s \<and> py_int 10 s = Inr n \<and> n \<in> {1, 4}"
    by blast
  from width_dispatch_exclusive [where root = sized_document and c = data_offset_qword] load mem(3) kinds(3)
  have e3: "\<exists>s n. attr data_offset_qword ''size'' = Some s \<and> py_int 10 s = Inr n \<and> n \<in> {4, 8}"
    by blast
  from l0 l1 l2 l3 l4 l5 l6 l7 r0 r1 r2 load e1 e2 e3 show ?thesis by blast
qed

subsection \<open>The combined link of REX.B and REX.X\<close>



subsection \<open>Declarations with an unrecognized tag\<close>

text \<open>
  C8: a component declaration with an unrecognized tag is reported and skipped. Reading
  an encoding gives what reading it without those declarations gives, the same error or
  the same components in the same order and the same \<^verbatim>\<open>rex\<close>, except that one line
  per unrecognized declaration has been printed; a successful read yields exactly one
  component per recognized declaration. The load goes on: a document loads to what the
  document without its unrecognized component declarations loads to, be it an error or
  an instruction set.
\<close>

theorem unknown_tag_skipped:
  "read_Encoding ops st (Element t a cs)
     = with_stdout (stdout st @ map unknown_message (filter unknown_tag cs))
         (read_Encoding ops st (Element t a (filter known_tag cs)))
   \<and> (read_Encoding ops st (Element t a cs) = Inr r \<longrightarrow>
        length (components (snd r)) = length (filter known_tag cs))
   \<and> read_instruction_set root = read_instruction_set (strip_document root)"
proof -
  have eq: "read_Encoding ops st (Element t a cs)
     = with_stdout (stdout st @ map unknown_message (filter unknown_tag cs))
         (read_Encoding ops st (Element t a (filter known_tag cs)))"
    by (simp add: read_Encoding_def for_each_skips_unknown [of ops cs])
  have "length (components (snd r)) = length (filter known_tag cs)"
    if r: "read_Encoding ops st (Element t a cs) = Inr r"
  proof -
    from r eq obtain r' where
      r': "read_Encoding ops st (Element t a (filter known_tag cs)) = Inr r'"
      and same: "snd r = snd r'"
      by (cases "read_Encoding ops st (Element t a (filter known_tag cs))")
         (auto simp add: with_stdout_def)
    have "\<forall>c \<in> set (filter known_tag cs). known_tag c" by simp
    from for_each_known_length [OF this r' [unfolded read_Encoding_def element.sel]] same
    show ?thesis by simp
  qed
  with eq read_instruction_set_strip [of root] show ?thesis by simp
qed

text \<open>
  The statement at \<^const>\<open>mixed_components\<close>: two opcodes around a declaration tagged
  \<^verbatim>\<open>Padding\<close>, read as one encoding and as the encoding of a document.
\<close>

theorem unknown_tag_skipped_witness:
  "filter known_tag mixed_components
     = [Element ''Opcode'' [(''byte'', ''0F'')] [], Element ''Opcode'' [(''byte'', ''90'')] []]
   \<and> read_Encoding [] \<lparr>rex = None, stdout = []\<rparr> (Element ''Encoding'' [] mixed_components)
     = Inr (\<lparr>rex = None, stdout = [''Unknown encoding tag: Padding'']\<rparr>,
            \<lparr>components = [OpcodeC \<lparr>Opcode.byte = 15, addend = None\<rparr>,
                           OpcodeC \<lparr>Opcode.byte = 144, addend = None\<rparr>]\<rparr>)
   \<and> length (components (snd (\<lparr>rex = None, stdout = [''Unknown encoding tag: Padding'']\<rparr>,
            \<lparr>components = [OpcodeC \<lparr>Opcode.byte = 15, addend = None\<rparr>,
                           OpcodeC \<lparr>Opcode.byte = 144, addend = None\<rparr>]\<rparr>)))
     = length (filter known_tag mixed_components)
   \<and> strip_document (single_form_document [] mixed_components)
     = single_form_document [] (filter known_tag mixed_components)
   \<and> read_instruction_set (single_form_document [] mixed_components)
     = Inr [\<lparr>Instruction.name = ''ADD'', summary = Some ''Add'',
             forms =
               [\<lparr>InstructionForm.name = ''ADD'', gas_name = Some ''add'', go_name = None,
                  mmx_mode = None, xmm_mode = None, operands = [], implicit_inputs = {},
                  implicit_outputs = {}, isa_extensions = [],
                  encodings =
                    [\<lparr>components = [OpcodeC \<lparr>Opcode.byte = 15, addend = None\<rparr>,
                                    OpcodeC \<lparr>Opcode.byte = 144, addend = None\<rparr>]\<rparr>]\<rparr>]\<rparr>]"
proof -
  have known: "filter known_tag mixed_components
     = [Element ''Opcode'' [(''byte'', ''0F'')] [], Element ''Opcode'' [(''byte'', ''90'')] []]"
    by code_simp
  have unknown: "map unknown_message (filter unknown_tag mixed_components)
     = [''Unknown encoding tag: Padding'']"
    by code_simp
  have filtered: "read_Encoding [] \<lparr>rex = None, stdout = []\<rparr>
       (Element ''Encoding'' [] (filter known_tag mixed_components))
     = Inr (\<lparr>rex = None, stdout = []\<rparr>,
            \<lparr>components = [OpcodeC \<lparr>Opcode.byte = 15, addend = None\<rparr>,
                           OpcodeC \<lparr>Opcode.byte = 144, addend = None\<rparr>]\<rparr>)"
    by code_simp
  have stripped: "strip_document (single_form_document [] mixed_components)
     = single_form_document [] (filter known_tag mixed_components)"
    by code_simp
  have load: "read_instruction_set (single_form_document [] (filter known_tag mixed_components))
     = Inr [\<lparr>Instruction.name = ''ADD'', summary = Some ''Add'',
             forms =
               [\<lparr>InstructionForm.name = ''ADD'', gas_name = Some ''add'', go_name = None,
                  mmx_mode = None, xmm_mode = None, operands = [], implicit_inputs = {},
                  implicit_outputs = {}, isa_extensions = [],
                  encodings =
                    [\<lparr>components = [OpcodeC \<lparr>Opcode.byte = 15, addend = None\<rparr>,
                                    OpcodeC \<lparr>Opcode.byte = 144, addend = None\<rparr>]\<rparr>]\<rparr>]\<rparr>]"
    by code_simp
  note inst = unknown_tag_skipped
    [where ops = "[]" and st = "\<lparr>rex = None, stdout = []\<rparr>" and t = "''Encoding''" and a = "[]"
       and cs = mixed_components
       and r = "(\<lparr>rex = None, stdout = [''Unknown encoding tag: Padding'']\<rparr>,
            \<lparr>components = [OpcodeC \<lparr>Opcode.byte = 15, addend = None\<rparr>,
                           OpcodeC \<lparr>Opcode.byte = 144, addend = None\<rparr>]\<rparr>)"
       and root = "single_form_document [] mixed_components"]
  from inst have full: "read_Encoding [] \<lparr>rex = None, stdout = []\<rparr> (Element ''Encoding'' [] mixed_components)
     = Inr (\<lparr>rex = None, stdout = [''Unknown encoding tag: Padding'']\<rparr>,
            \<lparr>components = [OpcodeC \<lparr>Opcode.byte = 15, addend = None\<rparr>,
                           OpcodeC \<lparr>Opcode.byte = 144, addend = None\<rparr>]\<rparr>)"
    unfolding filtered unknown by (simp add: with_stdout_def)
  from inst have whole: "read_instruction_set (single_form_document [] mixed_components)
     = read_instruction_set (single_form_document [] (filter known_tag mixed_components))"
    unfolding stripped by blast
  from inst full have len: "length (components (snd (\<lparr>rex = None, stdout = [''Unknown encoding tag: Padding'']\<rparr>,
            \<lparr>components = [OpcodeC \<lparr>Opcode.byte = 15, addend = None\<rparr>,
                           OpcodeC \<lparr>Opcode.byte = 144, addend = None\<rparr>]\<rparr>)))
     = length (filter known_tag mixed_components)"
    by blast
  from known full len stripped whole load show ?thesis by simp
qed

subsection \<open>Alternate display names\<close>

text \<open>
  C9, as amended: the Go/Plan 9 name is optional. A form is loaded with \<^verbatim>\<open>go_name\<close>
  equal to the \<^verbatim>\<open>go-name\<close> attribute, \<^verbatim>\<open>None\<close> when the attribute is absent, and
  removing the attribute changes nothing else in the result of reading the form, so its
  absence never makes the load fail. The GNU-assembler name is required: a form without
  the \<^verbatim>\<open>gas-name\<close> attribute raises \<^verbatim>\<open>KeyError\<close>, which aborts the load of any
  document that contains it; a loaded form always has a \<^verbatim>\<open>gas_name\<close>.
\<close>

theorem alternate_names_recorded:
  "(read_InstructionForm nm st f = Inr r \<longrightarrow>
      go_name (snd r) = attr f ''go-name'' \<and> gas_name (snd r) = attr f ''gas-name''
      \<and> gas_name (snd r) \<noteq> None)
   \<and> read_InstructionForm nm st (Element t (filter (\<lambda>p. fst p \<noteq> ''go-name'') a) cs)
       = bind (read_InstructionForm nm st (Element t a cs))
              (\<lambda>r. Inr (fst r, (snd r)\<lparr>go_name := None\<rparr>))
   \<and> (attr f ''gas-name'' = None \<longrightarrow> read_InstructionForm nm st f = Inl KeyError)
   \<and> (i \<in> set (children root) \<and> f \<in> set (children i) \<and> attr f ''gas-name'' = None \<longrightarrow>
        isl (read_instruction_set root))"
proof -
  have names: "read_InstructionForm nm st f = Inr r \<longrightarrow>
      go_name (snd r) = attr f ''go-name'' \<and> gas_name (snd r) = attr f ''gas-name''
      \<and> gas_name (snd r) \<noteq> None"
    using read_InstructionForm_names [of nm st f r] by simp
  have load: "isl (read_instruction_set root)"
    if "i \<in> set (children root)" "f \<in> set (children i)" "attr f ''gas-name'' = None"
  proof (cases "read_instruction_set root")
    case (Inl e)
    then show ?thesis by simp
  next
    case (Inr m)
    from loaded_form_resolves [OF Inr that(1,2)] obtain nm' st' r'
      where "read_InstructionForm nm' st' f = Inr r'" by blast
    with read_InstructionForm_no_gas_name [OF that(3), of nm' st'] show ?thesis by simp
  qed
  from names load read_InstructionForm_without_go_name [of nm st t a cs]
    read_InstructionForm_no_gas_name [of f nm st]
  show ?thesis by blast
qed

text \<open>
  The statement at \<^const>\<open>form_without_go_name\<close>, \<^const>\<open>form_without_gas_name\<close> and
  the document that holds the latter.
\<close>

theorem alternate_names_recorded_witness:
  "read_InstructionForm ''NOP'' \<lparr>rex = None, stdout = []\<rparr> form_without_go_name
     = Inr (\<lparr>rex = None, stdout = []\<rparr>,
            \<lparr>InstructionForm.name = ''NOP'', gas_name = Some ''nop'', go_name = None,
               mmx_mode = None, xmm_mode = None, operands = [], implicit_inputs = {},
               implicit_outputs = {}, isa_extensions = [], encodings = []\<rparr>)
   \<and> attr form_without_go_name ''go-name'' = None
   \<and> go_name (snd (\<lparr>rex = None, stdout = []\<rparr>,
            \<lparr>InstructionForm.name = ''NOP'', gas_name = Some ''nop'', go_name = None,
               mmx_mode = None, xmm_mode = None, operands = [], implicit_inputs = {},
               implicit_outputs = {}, isa_extensions = [], encodings = []\<rparr>))
       = attr form_without_go_name ''go-name''
   \<and> attr form_without_gas_name ''gas-name'' = None
   \<and> read_InstructionForm ''NOP'' \<lparr>rex = None, stdout = []\<rparr> form_without_gas_name = Inl KeyError
   \<and> isl (read_instruction_set no_gas_name_document)"
proof -
  have ok: "read_InstructionForm ''NOP'' \<lparr>rex = None, stdout = []\<rparr> form_without_go_name
     = Inr (\<lparr>rex = None, stdout = []\<rparr>,
            \<lparr>InstructionForm.name = ''NOP'', gas_name = Some ''nop'', go_name = None,
               mmx_mode = None, xmm_mode = None, operands = [], implicit_inputs = {},
               implicit_outputs = {}, isa_extensions = [], encodings = []\<rparr>)"
    by code_simp
  have go: "attr form_without_go_name ''go-name'' = None" by code_simp
  have gas: "attr form_without_gas_name ''gas-name'' = None" by code_simp
  have i: "Element ''Instruction'' [(''name'', ''NOP''), (''summary'', ''No Operation'')]
             [form_without_gas_name] \<in> set (children no_gas_name_document)"
    by code_simp
  have f: "form_without_gas_name \<in> set (children (Element ''Instruction''
             [(''name'', ''NOP''), (''summary'', ''No Operation'')] [form_without_gas_name]))"
    by code_simp
  note inst = alternate_names_recorded
    [where nm = "''NOP''" and st = "\<lparr>rex = None, stdout = []\<rparr>" and f = form_without_gas_name
       and root = no_gas_name_document
       and i = "Element ''Instruction'' [(''name'', ''NOP''), (''summary'', ''No Operation'')]
                  [form_without_gas_name]"]
  from inst gas have abort: "read_InstructionForm ''NOP'' \<lparr>rex = None, stdout = []\<rparr>
      form_without_gas_name = Inl KeyError"
    by blast
  from inst gas i f have whole: "isl (read_instruction_set no_gas_name_document)" by blast
  from alternate_names_recorded
    [where nm = "''NOP''" and st = "\<lparr>rex = None, stdout = []\<rparr>" and f = form_without_go_name
       and r = "(\<lparr>rex = None, stdout = []\<rparr>,
            \<lparr>InstructionForm.name = ''NOP'', gas_name = Some ''nop'', go_name = None,
               mmx_mode = None, xmm_mode = None, operands = [], implicit_inputs = {},
               implicit_outputs = {}, isa_extensions = [], encodings = []\<rparr>)"]
    ok
  have recorded: "go_name (snd (\<lparr>rex = None, stdout = []\<rparr>,
            \<lparr>InstructionForm.name = ''NOP'', gas_name = Some ''nop'', go_name = None,
               mmx_mode = None, xmm_mode = None, operands = [], implicit_inputs = {},
               implicit_outputs = {}, isa_extensions = [], encodings = []\<rparr>))
       = attr form_without_go_name ''go-name''"
    by blast
  from ok go recorded gas abort whole show ?thesis by blast
qed

text \<open>A form node without \<^verbatim>\<open>gas-name\<close> is a load failure, not an absent name.\<close>

theorem missing_gas_name_aborts:
  "attr form_without_gas_name ''gas-name'' = None
   \<and> read_instruction_set no_gas_name_document = Inl KeyError"
  by code_simp

subsection \<open>Operand predicates\<close>

text \<open>
  C10: an operand whose type tag is \<^verbatim>\<open>"zmm"\<close> is classified by the model's predicates
  as neither a register nor a memory location: \<^verbatim>\<open>is_register\<close> and
  \<^verbatim>\<open>is_memory\<close> both return false for it, whatever its input and output flags.
\<close>

theorem zmm_neither_register_nor_memory:
  "type operand = ''zmm'' \<Longrightarrow> \<not> is_register operand \<and> \<not> is_memory operand"
  by (simp add: is_register_def is_memory_def)

theorem zmm_neither_register_nor_memory_witness:
  "type \<lparr>type = ''zmm'', is_input = True, is_output = False\<rparr> = ''zmm''
   \<and> \<not> is_register \<lparr>type = ''zmm'', is_input = True, is_output = False\<rparr>
   \<and> \<not> is_memory \<lparr>type = ''zmm'', is_input = True, is_output = False\<rparr>"
  using zmm_neither_register_nor_memory [of "\<lparr>type = ''zmm'', is_input = True, is_output = False\<rparr>"]
  by simp

end
